theory Spec2Isabelle
  imports Main "HOL-Library.Sublist" "HOL-Library.AList"
begin

section \<open>Python values, exceptions and clocks\<close>

text \<open>
  The module \<^verbatim>\<open>backend/app/common/jwt.py\<close> is embedded function by function (the two
  password functions, which only call the hashing library, are left out).
  Python raises exceptions; a model function returns \<open>exc + 'a\<close>, with \<open>Inl\<close> the
  exception raised. A \<^verbatim>\<open>datetime\<close> is the number of microseconds since the epoch and a
  \<^verbatim>\<open>timedelta\<close> a number of microseconds, both \<open>int\<close>; the reading of
  \<^verbatim>\<open>datetime.now()\<close> is an argument \<open>now\<close> of every function that reads the clock.
  The local clock and the UTC clock of the JWT library are taken to agree
  (the process runs in UTC).
\<close>

datatype err_msg = DefaultMsg | RefreshTokenExpiredMsg | TokenExpiredMsg | UserLockedMsg

text \<open>
  The exceptions the module and its collaborators raise; every one is a subclass of
  Python's \<^verbatim>\<open>Exception\<close>. \<open>TokenError\<close> and \<open>AuthorizationError\<close> are the
  application's own (\<^verbatim>\<open>common/exception/errors.py\<close>), with their \<^verbatim>\<open>msg\<close> argument.
  \<open>ExpiredSignatureError\<close> and \<open>JWTClaimsError\<close> are subclasses of \<open>JWTError\<close>.
\<close>

datatype exc =
    TokenError err_msg
  | AuthorizationError err_msg
  | JWTError
  | ExpiredSignatureError
  | JWTClaimsError
  | JWSError
  | ValidationError
  | TypeError
  | ValueError
  | OverflowError
  | StoreError

text \<open>A float is \<open>m * 2 ^ e\<close>, an infinity (\<open>True\<close> for the positive one) or NaN.\<close>

datatype pyfloat = Finite int int | Infinity bool | NaN

datatype pyval =
    PNone
  | PBool bool
  | PInt int
  | PFloat pyfloat
  | PStr string
  | PList "pyval list"
  | PDict "(string \<times> pyval) list"
  | PDatetime int
  | PTimedelta int

text \<open>A \<^verbatim>\<open>dict\<close> with string keys, in insertion order.\<close>

type_synonym pydict = "(string \<times> pyval) list"

text \<open>\<^verbatim>\<open>d.get(k)\<close>: the value, \<^verbatim>\<open>None\<close> when the key is missing.\<close>

definition dict_get :: "pydict \<Rightarrow> string \<Rightarrow> pyval" where
  "dict_get d k = (case map_of d k of None \<Rightarrow> PNone | Some v \<Rightarrow> v)"

text \<open>\<^verbatim>\<open>{**d, **kwargs}\<close>: a key of \<open>kwargs\<close> already in \<open>d\<close> keeps its place and
  takes the new value, a new key is appended.\<close>

definition dict_merge :: "pydict \<Rightarrow> pydict \<Rightarrow> pydict" where
  "dict_merge d kwargs = fold (\<lambda>(k, v). AList.update k v) kwargs d"

text \<open>Python's truth value of an object (\<^verbatim>\<open>if x:\<close>, \<^verbatim>\<open>not x\<close>).\<close>

fun truthy :: "pyval \<Rightarrow> bool" where
  "truthy PNone = False"
| "truthy (PBool b) = b"
| "truthy (PInt i) = (i \<noteq> 0)"
| "truthy (PFloat (Finite m e)) = (m \<noteq> 0)"
| "truthy (PFloat (Infinity b)) = True"
| "truthy (PFloat NaN) = True"
| "truthy (PStr s) = (s \<noteq> [])"
| "truthy (PList xs) = (xs \<noteq> [])"
| "truthy (PDict kvs) = (kvs \<noteq> [])"
| "truthy (PDatetime t) = True"
| "truthy (PTimedelta d) = (d \<noteq> 0)"

text \<open>\<^verbatim>\<open>int(x)\<close> on a number rounds towards zero.\<close>

definition trunc_div :: "int \<Rightarrow> int \<Rightarrow> int" where
  "trunc_div a b = (if a < 0 then - ((- a) div b) else a div b)"

text \<open>
  \<^verbatim>\<open>timedelta(seconds=n)\<close>: a \<^verbatim>\<open>timedelta\<close> holds at most 999999999 days either way, and
  the constructor raises \<^verbatim>\<open>OverflowError\<close> beyond.
\<close>

definition timedelta_seconds :: "int \<Rightarrow> exc + int" where
  "timedelta_seconds n =
     (if - 86399999913600 \<le> n \<and> n \<le> 86399999999999 then Inr (n * 1000000)
      else Inl OverflowError)"

text \<open>
  \<^verbatim>\<open>t + d\<close> for a \<^verbatim>\<open>datetime\<close> and a \<^verbatim>\<open>timedelta\<close>: the sum has to lie between
  \<^verbatim>\<open>datetime.min\<close> (year 1) and \<^verbatim>\<open>datetime.max\<close> (the last microsecond of year 9999),
  and \<^verbatim>\<open>OverflowError\<close> is raised when it does not.
\<close>

definition datetime_min :: int where
  "datetime_min = - 62135596800000000"

definition datetime_max :: int where
  "datetime_max = 253402300799999999"

definition datetime_add :: "int \<Rightarrow> int \<Rightarrow> exc + int" where
  "datetime_add t d =
     (if datetime_min \<le> t + d \<and> t + d \<le> datetime_max then Inr (t + d) else Inl OverflowError)"

text \<open>\<^verbatim>\<open>t + timedelta(seconds=n)\<close>.\<close>

definition datetime_plus_seconds :: "int \<Rightarrow> int \<Rightarrow> exc + int" where
  "datetime_plus_seconds t n =
     (case timedelta_seconds n of Inl e \<Rightarrow> Inl e | Inr d \<Rightarrow> datetime_add t d)"

subsection \<open>\<^verbatim>\<open>int(...)\<close>\<close>

text \<open>
  A character of a string is a code point below 256. The white space \<^verbatim>\<open>int\<close> skips
  around a number: tab to carriage return, the space, and the two white-space code
  points above ASCII in this range (0x85 and 0xA0). The separators 0x1C to 0x1F, white
  space to \<^verbatim>\<open>str.strip\<close>, are not white space to \<^verbatim>\<open>int\<close>.
\<close>

definition is_space :: "char \<Rightarrow> bool" where
  "is_space c =
     (let n = (of_char c :: nat) in (9 \<le> n \<and> n \<le> 13) \<or> n = 32 \<or> n = 133 \<or> n = 160)"

definition is_digit :: "char \<Rightarrow> bool" where
  "is_digit c = (let n = (of_char c :: nat) in 48 \<le> n \<and> n \<le> 57)"

definition digit_val :: "char \<Rightarrow> int" where
  "digit_val c = int (of_char c) - 48"

definition py_strip :: "string \<Rightarrow> string" where
  "py_strip s = rev (dropWhile is_space (rev (dropWhile is_space s)))"

text \<open>Digits with single underscores between them, as \<^verbatim>\<open>int\<close> accepts them.\<close>

fun digit_run :: "string \<Rightarrow> bool" where
  "digit_run [] = False"
| "digit_run [c] = is_digit c"
| "digit_run (c # d # r) =
     (is_digit c \<and> (if d = CHR ''_'' then digit_run r else digit_run (d # r)))"

definition digits_val :: "string \<Rightarrow> int" where
  "digits_val ds = fold (\<lambda>c acc. acc * 10 + digit_val c) ds 0"

text \<open>
  \<^verbatim>\<open>int(s)\<close> for a string: surrounding white space, an optional sign, decimal digits.
  A number of more than 4300 digits (underscores not counted) is refused, which is
  CPython's default \<^verbatim>\<open>sys.int_max_str_digits\<close>.
\<close>

definition int_of_str :: "string \<Rightarrow> exc + int" where
  "int_of_str s =
     (case py_strip s of
        [] \<Rightarrow> Inl ValueError
      | c # r \<Rightarrow>
          (let neg = (c = CHR ''-'');
               ds = (if c = CHR ''-'' \<or> c = CHR ''+'' then r else c # r)
           in if digit_run ds \<and> length (filter (\<lambda>x. x \<noteq> CHR ''_'') ds) \<le> 4300
              then Inr ((if neg then - 1 else 1) * digits_val (filter (\<lambda>x. x \<noteq> CHR ''_'') ds))
              else Inl ValueError))"

fun py_int :: "pyval \<Rightarrow> exc + int" where
  "py_int PNone = Inl TypeError"
| "py_int (PBool b) = Inr (if b then 1 else 0)"
| "py_int (PInt i) = Inr i"
| "py_int (PFloat (Finite m e)) =
     Inr (if 0 \<le> e then m * 2 ^ nat e else trunc_div m (2 ^ nat (- e)))"
| "py_int (PFloat (Infinity b)) = Inl OverflowError"
| "py_int (PFloat NaN) = Inl ValueError"
| "py_int (PStr s) = int_of_str s"
| "py_int (PList xs) = Inl TypeError"
| "py_int (PDict kvs) = Inl TypeError"
| "py_int (PDatetime t) = Inl TypeError"
| "py_int (PTimedelta d) = Inl TypeError"

subsection \<open>\<^verbatim>\<open>timedelta.total_seconds()\<close>\<close>

text \<open>The number of binary digits of a natural number.\<close>

fun bit_length :: "nat \<Rightarrow> nat" where
  "bit_length n = (if n = 0 then 0 else Suc (bit_length (n div 2)))"

declare bit_length.simps [simp del]

text \<open>\<open>n / d\<close> rounded to the nearest integer, a tie to the even one (\<open>0 \<le> n\<close>, \<open>0 < d\<close>).\<close>

definition round_half_even :: "int \<Rightarrow> int \<Rightarrow> int" where
  "round_half_even n d =
     (let q = n div d; r = n mod d
      in if d < 2 * r \<or> (2 * r = d \<and> odd q) then q + 1 else q)"

text \<open>
  \<^verbatim>\<open>a / b\<close> for two integers (\<open>0 < b\<close>): the double nearest to the quotient, which is a
  mantissa of 53 binary digits, rounded half to even, at the exponent \<open>- k\<close> that puts
  the quotient between \<open>2 ^ 52\<close> and \<open>2 ^ 53\<close>. (Quotients of the size of a
  \<^verbatim>\<open>timedelta\<close> are far from the ends of the range of doubles.)
\<close>

definition true_divide :: "int \<Rightarrow> int \<Rightarrow> pyfloat" where
  "true_divide a b =
     (if a = 0 then Finite 0 0
      else
        (let n = \<bar>a\<bar>;
             k0 = 52 - int (bit_length (nat n)) + int (bit_length (nat b));
             k = (if 2 ^ 52 * (b * 2 ^ nat (- k0)) \<le> n * 2 ^ nat k0 then k0 else k0 + 1);
             m = round_half_even (n * 2 ^ nat k) (b * 2 ^ nat (- k))
         in Finite (sgn a * m) (- k)))"

text \<open>\<^verbatim>\<open>td.total_seconds()\<close> for a \<^verbatim>\<open>timedelta\<close> of \<open>d\<close> microseconds: \<^verbatim>\<open>d / 10**6\<close>.\<close>

definition total_seconds :: "int \<Rightarrow> pyfloat" where
  "total_seconds d = true_divide d 1000000"

text \<open>\<^verbatim>\<open>int(td.total_seconds())\<close>.\<close>

definition int_total_seconds :: "int \<Rightarrow> int" where
  "int_total_seconds d = (case py_int (PFloat (total_seconds d)) of Inl e \<Rightarrow> 0 | Inr i \<Rightarrow> i)"

subsection \<open>\<^verbatim>\<open>list(...)\<close>\<close>

text \<open>\<^verbatim>\<open>list(x)\<close>: the items of an iterable; a string gives its characters, a dict its keys.\<close>

fun py_list :: "pyval \<Rightarrow> exc + pyval list" where
  "py_list (PStr s) = Inr (map (\<lambda>c. PStr [c]) s)"
| "py_list (PList xs) = Inr xs"
| "py_list (PDict kvs) = Inr (map (\<lambda>(k, v). PStr k) kvs)"
| "py_list v = Inl TypeError"

section \<open>Configuration\<close>

text \<open>
  The fields of \<^verbatim>\<open>settings\<close> (\<^verbatim>\<open>core/conf.py\<close>) the module reads; every function takes
  them as its argument \<open>cfg\<close>.
\<close>

record settings =
  TOKEN_SECRET_KEY :: string
  TOKEN_ALGORITHM :: string
  TOKEN_EXPIRE_SECONDS :: int
  TOKEN_REFRESH_EXPIRE_SECONDS :: int
  TOKEN_REDIS_PREFIX :: string
  TOKEN_REFRESH_REDIS_PREFIX :: string

section \<open>Presented-credential extraction\<close>

text \<open>\<^verbatim>\<open>s.lower()\<close>, on ASCII letters. No other character lowers to a letter of
  \<^verbatim>\<open>bearer\<close>, so the comparison below is the source's.\<close>

definition lower_char :: "char \<Rightarrow> char" where
  "lower_char c =
     (case map_of (zip ''ABCDEFGHIJKLMNOPQRSTUVWXYZ'' ''abcdefghijklmnopqrstuvwxyz'') c of
        None \<Rightarrow> c
      | Some l \<Rightarrow> l)"

definition py_lower :: "string \<Rightarrow> string" where
  "py_lower s = map lower_char s"

text \<open>\<^verbatim>\<open>s.partition(' ')\<close>, without the separator: the text before the first space and
  the text after it (both of them all of \<open>s\<close> and the empty string when there is none).\<close>

definition partition_space :: "string \<Rightarrow> string \<times> string" where
  "partition_space s =
     (takeWhile (\<lambda>c. c \<noteq> CHR '' '') s, drop 1 (dropWhile (\<lambda>c. c \<noteq> CHR '' '') s))"

text \<open>FastAPI's \<^verbatim>\<open>get_authorization_scheme_param\<close>.\<close>

definition get_authorization_scheme_param :: "string option \<Rightarrow> string \<times> string" where
  "get_authorization_scheme_param authorization =
     (case authorization of
        None \<Rightarrow> ([], [])
      | Some a \<Rightarrow> if a = [] then ([], []) else partition_space a)"

text \<open>A request: its headers, and the header lookup of Starlette, which ignores the
  case of the header's name and returns the first match.\<close>

record request =
  headers :: "(string \<times> string) list"

definition headers_get :: "(string \<times> string) list \<Rightarrow> string \<Rightarrow> string option" where
  "headers_get hs k = map_of (map (\<lambda>(n, v). (py_lower n, v)) hs) (py_lower k)"

definition get_token :: "request \<Rightarrow> exc + string" where
  "get_token req =
     (let authorization = headers_get (headers req) ''Authorization'';
          (scheme, token) = get_authorization_scheme_param authorization
      in if authorization = None \<or> authorization = Some [] \<or> py_lower scheme \<noteq> ''bearer''
         then Inl (TokenError DefaultMsg)
         else Inr token)"

section \<open>The revocation index\<close>

text \<open>
  Modelled from the spec: the Redis client \<^verbatim>\<open>redis_client\<close> (\<^verbatim>\<open>common/redis.py\<close>) is not
  among the sources. The index maps a key to the value stored under it and the
  time-to-live, in seconds, it was stored with (spec 3 and 4.2).
\<close>

type_synonym store = "string \<rightharpoonup> (string \<times> int)"

text \<open>
  Modelled from the spec: \<^verbatim>\<open>put\<close> of the absent Redis client (\<^verbatim>\<open>setex\<close>) stores the
  entry, overwriting an existing one under the same key. The ttl must be at least 0 and
  the index does not clamp it: a negative ttl is refused with an error and nothing is
  stored.
\<close>

definition redis_setex :: "string \<Rightarrow> int \<Rightarrow> string \<Rightarrow> store \<Rightarrow> (exc + unit) \<times> store" where
  "redis_setex key seconds v s =
     (if seconds < 0 then (Inl StoreError, s) else (Inr (), s(key \<mapsto> (v, seconds))))"

text \<open>Modelled from the spec: \<^verbatim>\<open>get\<close> of the absent Redis client returns the value stored
  under the key, or nothing.\<close>

definition redis_get :: "string \<Rightarrow> store \<Rightarrow> string option" where
  "redis_get key s = map_option fst (s key)"

text \<open>Modelled from the spec: \<^verbatim>\<open>deletePrefix\<close> of the absent Redis client deletes every
  entry whose key starts with the prefix; with no such entry it changes nothing.\<close>

definition redis_delete_prefix :: "string \<Rightarrow> store \<Rightarrow> store" where
  "redis_delete_prefix p s = (\<lambda>k. if prefix p k then None else s k)"

text \<open>
  Keys are built as \<^verbatim>\<open>prefix:subject:token\<close>. A key splits into these parts in one way
  only when prefix and subject hold no colon; \<open>store_inv\<close> says that every entry of the
  index holds the last part of its key.
\<close>

definition colon_free :: "string \<Rightarrow> bool" where
  "colon_free x = (CHR '':'' \<notin> set x)"

definition store_inv :: "store \<Rightarrow> bool" where
  "store_inv s =
     (\<forall>k v ttl. s k = Some (v, ttl)
        \<longrightarrow> (\<exists>p u. colon_free p \<and> colon_free u \<and> k = p @ '':'' @ u @ '':'' @ v))"

text \<open>
  The tokens of the library are not empty, and the module stores nothing else: the
  values of an index it has written are non-empty strings.
\<close>

definition nonempty_values :: "store \<Rightarrow> bool" where
  "nonempty_values s = (\<forall>k v ttl. s k = Some (v, ttl) \<longrightarrow> v \<noteq> [])"

section \<open>The JWT library\<close>

text \<open>
  \<^verbatim>\<open>jose.jwt\<close> is a third-party library: the functions of the module take its two
  entry points as the argument \<open>J\<close>. \<open>lib_encode J claims key algorithm\<close> is
  \<^verbatim>\<open>jwt.encode\<close>; \<open>lib_decode J token key algorithms now\<close> is \<^verbatim>\<open>jwt.decode\<close> called
  when the library's clock reads \<open>now\<close>.
\<close>

record jose =
  lib_encode :: "pydict \<Rightarrow> string \<Rightarrow> string \<Rightarrow> exc + string"
  lib_decode :: "string \<Rightarrow> string \<Rightarrow> string list \<Rightarrow> int \<Rightarrow> exc + pydict"

text \<open>
  What the library promises, stated on the claims as they travel: \<^verbatim>\<open>jwt.encode\<close>
  replaces a \<^verbatim>\<open>datetime\<close> under \<^verbatim>\<open>exp\<close>, \<^verbatim>\<open>iat\<close> or \<^verbatim>\<open>nbf\<close> by its whole seconds.
\<close>

definition wire_val :: "string \<Rightarrow> pyval \<Rightarrow> pyval" where
  "wire_val k v =
     (if k = ''exp'' \<or> k = ''iat'' \<or> k = ''nbf''
      then (case v of PDatetime t \<Rightarrow> PInt (t div 1000000) | _ \<Rightarrow> v)
      else v)"

definition wire :: "pydict \<Rightarrow> pydict" where
  "wire claims = map (\<lambda>(k, v). (k, wire_val k v)) claims"

text \<open>\<^verbatim>\<open>jwt.decode\<close> refuses a token whose \<^verbatim>\<open>exp\<close> is before the current second.\<close>

definition claims_expired :: "pydict \<Rightarrow> int \<Rightarrow> bool" where
  "claims_expired claims now =
     (case map_of claims ''exp'' of Some (PInt e) \<Rightarrow> e < now div 1000000 | _ \<Rightarrow> False)"

text \<open>
  Claims \<^verbatim>\<open>jwt.decode\<close> validates no further: a string subject, an expiry, and none of
  the other registered claims.
\<close>

definition plain_claims :: "pydict \<Rightarrow> bool" where
  "plain_claims claims =
     (list_all (\<lambda>k. map_of claims k = None)
        [''nbf'', ''iat'', ''iss'', ''aud'', ''jti'', ''at_hash'']
      \<and> (case map_of claims ''sub'' of None \<Rightarrow> True | Some (PStr u) \<Rightarrow> True | _ \<Rightarrow> False)
      \<and> (case map_of claims ''exp'' of
            None \<Rightarrow> True | Some (PDatetime t) \<Rightarrow> True | Some (PInt e) \<Rightarrow> True | _ \<Rightarrow> False))"

text \<open>
  The round trip of the library: a token it encoded from plain claims decodes, under
  the same key and algorithm and before the expiry, to those claims.
\<close>

definition jose_roundtrip :: "jose \<Rightarrow> bool" where
  "jose_roundtrip J =
     (\<forall>claims key alg tok now.
        lib_encode J claims key alg = Inr tok \<and> plain_claims claims
          \<and> \<not> claims_expired (wire claims) now
        \<longrightarrow> lib_decode J tok key [alg] now = Inr (wire claims))"

text \<open>
  An implementation of the library's interface to run the module on: an issuer that
  hands out the tokens of a table and decodes a token by looking it up.
\<close>

definition table_jose :: "((pydict \<times> string \<times> string) \<times> string) list \<Rightarrow> jose" where
  "table_jose tbl =
     \<lparr>lib_encode = (\<lambda>claims key alg.
        case map_of tbl (wire claims, key, alg) of
          None \<Rightarrow> Inl JWSError
        | Some t \<Rightarrow> Inr t),
      lib_decode = (\<lambda>tok key algs now.
        case find (\<lambda>((c, k, a), t). t = tok \<and> k = key \<and> a \<in> set algs) tbl of
          None \<Rightarrow> Inl JWTError
        | Some ((c, k, a), t) \<Rightarrow>
            if claims_expired c now then Inl ExpiredSignatureError else Inr c)\<rparr>"

section \<open>Token issuer\<close>

text \<open>
  The opening \<^verbatim>\<open>if\<close> of \<^verbatim>\<open>create_access_token\<close>, which sets \<^verbatim>\<open>expire\<close> and
  \<^verbatim>\<open>expire_seconds\<close>: from \<^verbatim>\<open>expires_delta\<close> when it is given and not zero, from
  \<^verbatim>\<open>TOKEN_EXPIRE_SECONDS\<close> otherwise. It raises when \<^verbatim>\<open>expire\<close> overflows.
\<close>

definition access_expiry :: "settings \<Rightarrow> int \<Rightarrow> int option \<Rightarrow> exc + int \<times> int" where
  "access_expiry cfg now expires_delta =
     (case expires_delta of
        Some d \<Rightarrow>
          if d \<noteq> 0
          then (case datetime_add now d of
                  Inl e \<Rightarrow> Inl e
                | Inr expire \<Rightarrow> Inr (expire, int_total_seconds d))
          else (case datetime_plus_seconds now (TOKEN_EXPIRE_SECONDS cfg) of
                  Inl e \<Rightarrow> Inl e
                | Inr expire \<Rightarrow> Inr (expire, TOKEN_EXPIRE_SECONDS cfg))
      | None \<Rightarrow>
          (case datetime_plus_seconds now (TOKEN_EXPIRE_SECONDS cfg) of
             Inl e \<Rightarrow> Inl e
           | Inr expire \<Rightarrow> Inr (expire, TOKEN_EXPIRE_SECONDS cfg)))"

text \<open>
  The opening \<^verbatim>\<open>if\<close> of \<^verbatim>\<open>create_refresh_token\<close>: with an anchor \<^verbatim>\<open>expire_time\<close> the
  expiry is the anchor plus \<^verbatim>\<open>TOKEN_REFRESH_EXPIRE_SECONDS\<close> and \<^verbatim>\<open>expire_seconds\<close> is
  \<^verbatim>\<open>int((expire - datetime.now()).total_seconds())\<close>.
\<close>

definition refresh_expiry :: "settings \<Rightarrow> int \<Rightarrow> int option \<Rightarrow> exc + int \<times> int" where
  "refresh_expiry cfg now expire_time =
     (case expire_time of
        Some t \<Rightarrow>
          (case datetime_plus_seconds t (TOKEN_REFRESH_EXPIRE_SECONDS cfg) of
             Inl e \<Rightarrow> Inl e
           | Inr expire \<Rightarrow> Inr (expire, int_total_seconds (expire - now)))
      | None \<Rightarrow>
          (case datetime_plus_seconds now (TOKEN_REFRESH_EXPIRE_SECONDS cfg) of
             Inl e \<Rightarrow> Inl e
           | Inr expire \<Rightarrow> Inr (expire, TOKEN_REFRESH_EXPIRE_SECONDS cfg)))"

definition create_access_token ::
  "jose \<Rightarrow> settings \<Rightarrow> int \<Rightarrow> string \<Rightarrow> int option \<Rightarrow> pydict \<Rightarrow> store
     \<Rightarrow> (exc + string \<times> int) \<times> store" where
  "create_access_token J cfg now sub expires_delta kwargs s =
     (case access_expiry cfg now expires_delta of
        Inl e \<Rightarrow> (Inl e, s)
      | Inr (expire, expire_seconds) \<Rightarrow>
     (let multi_login = dict_get kwargs ''multi_login'';
          kwargs' = AList.delete ''multi_login'' kwargs;
          to_encode = dict_merge [(''exp'', PDatetime expire), (''sub'', PStr sub)] kwargs'
      in case lib_encode J to_encode (TOKEN_SECRET_KEY cfg) (TOKEN_ALGORITHM cfg) of
           Inl e \<Rightarrow> (Inl e, s)
         | Inr token \<Rightarrow>
             (let s1 = (if multi_login = PBool False
                        then redis_delete_prefix (TOKEN_REDIS_PREFIX cfg @ '':'' @ sub @ '':'') s
                        else s);
                  key = TOKEN_REDIS_PREFIX cfg @ '':'' @ sub @ '':'' @ token
              in case redis_setex key expire_seconds token s1 of
                   (Inl e, s2) \<Rightarrow> (Inl e, s2)
                 | (Inr u, s2) \<Rightarrow> (Inr (token, expire), s2))))"

definition create_refresh_token ::
  "jose \<Rightarrow> settings \<Rightarrow> int \<Rightarrow> string \<Rightarrow> int option \<Rightarrow> pydict \<Rightarrow> store
     \<Rightarrow> (exc + string \<times> int) \<times> store" where
  "create_refresh_token J cfg now sub expire_time kwargs s =
     (case refresh_expiry cfg now expire_time of
        Inl e \<Rightarrow> (Inl e, s)
      | Inr (expire, expire_seconds) \<Rightarrow>
     (let multi_login = dict_get kwargs ''multi_login'';
          kwargs' = AList.delete ''multi_login'' kwargs;
          to_encode = dict_merge [(''exp'', PDatetime expire), (''sub'', PStr sub)] kwargs'
      in case lib_encode J to_encode (TOKEN_SECRET_KEY cfg) (TOKEN_ALGORITHM cfg) of
           Inl e \<Rightarrow> (Inl e, s)
         | Inr refresh_token \<Rightarrow>
             (let s1 = (if multi_login = PBool False
                        then redis_delete_prefix
                               (TOKEN_REFRESH_REDIS_PREFIX cfg @ '':'' @ sub @ '':'') s
                        else s);
                  key = TOKEN_REFRESH_REDIS_PREFIX cfg @ '':'' @ sub @ '':'' @ refresh_token
              in case redis_setex key expire_seconds refresh_token s1 of
                   (Inl e, s2) \<Rightarrow> (Inl e, s2)
                 | (Inr u, s2) \<Rightarrow> (Inr (refresh_token, expire), s2))))"

section \<open>Refresh orchestrator\<close>

text \<open>
  The call \<^verbatim>\<open>create_access_token(sub, **kwargs)\<close> binds a keyword \<^verbatim>\<open>expires_delta\<close> to
  the parameter of that name and leaves the other keywords as extra claims. A value
  that is not a \<^verbatim>\<open>timedelta\<close> is taken for \<^verbatim>\<open>None\<close> when it is false, and adding it to
  \<^verbatim>\<open>datetime.now()\<close> raises \<^verbatim>\<open>TypeError\<close> when it is true.
\<close>

definition bind_expires_delta :: "pydict \<Rightarrow> exc + int option \<times> pydict" where
  "bind_expires_delta kwargs =
     (case map_of kwargs ''expires_delta'' of
        None \<Rightarrow> Inr (None, kwargs)
      | Some (PTimedelta d) \<Rightarrow> Inr (Some d, AList.delete ''expires_delta'' kwargs)
      | Some v \<Rightarrow>
          if truthy v then Inl TypeError
          else Inr (None, AList.delete ''expires_delta'' kwargs))"

definition create_new_token ::
  "jose \<Rightarrow> settings \<Rightarrow> int \<Rightarrow> string \<Rightarrow> string \<Rightarrow> pydict \<Rightarrow> store
     \<Rightarrow> (exc + string \<times> int) \<times> store" where
  "create_new_token J cfg now sub refresh_token kwargs s =
     (let redis_refresh_token =
            redis_get (TOKEN_REFRESH_REDIS_PREFIX cfg @ '':'' @ sub @ '':'' @ refresh_token) s
      in if redis_refresh_token = None \<or> redis_refresh_token = Some []
            \<or> redis_refresh_token \<noteq> Some refresh_token
         then (Inl (TokenError RefreshTokenExpiredMsg), s)
         else (case bind_expires_delta kwargs of
                 Inl e \<Rightarrow> (Inl e, s)
               | Inr (expires_delta, extra) \<Rightarrow>
                   create_access_token J cfg now sub expires_delta extra s))"

section \<open>Token validator\<close>

text \<open>The exceptions an \<^verbatim>\<open>except Exception\<close> clause catches: all of them.\<close>

fun is_Exception :: "exc \<Rightarrow> bool" where
  "is_Exception (TokenError m) = True"
| "is_Exception (AuthorizationError m) = True"
| "is_Exception JWTError = True"
| "is_Exception ExpiredSignatureError = True"
| "is_Exception JWTClaimsError = True"
| "is_Exception JWSError = True"
| "is_Exception ValidationError = True"
| "is_Exception TypeError = True"
| "is_Exception ValueError = True"
| "is_Exception OverflowError = True"
| "is_Exception StoreError = True"

definition is_JWTError :: "exc \<Rightarrow> bool" where
  "is_JWTError e = (e = JWTError \<or> e = ExpiredSignatureError \<or> e = JWTClaimsError)"

text \<open>The body of the \<^verbatim>\<open>try\<close> statement of \<^verbatim>\<open>jwt_decode\<close>.\<close>

definition jwt_decode_body ::
  "jose \<Rightarrow> settings \<Rightarrow> int \<Rightarrow> string \<Rightarrow> exc + int \<times> pyval list" where
  "jwt_decode_body J cfg now token =
     (case lib_decode J token (TOKEN_SECRET_KEY cfg) [TOKEN_ALGORITHM cfg] now of
        Inl e \<Rightarrow> Inl e
      | Inr payload \<Rightarrow>
          (case py_int (dict_get payload ''sub'') of
             Inl e \<Rightarrow> Inl e
           | Inr user_id \<Rightarrow>
               (case py_list (dict_get payload ''role_ids'') of
                  Inl e \<Rightarrow> Inl e
                | Inr role_ids \<Rightarrow>
                    if user_id = 0 \<or> role_ids = [] then Inl (TokenError DefaultMsg)
                    else Inr (user_id, role_ids))))"

text \<open>\<^verbatim>\<open>jwt_decode\<close>: the body under
  \<^verbatim>\<open>except (jwt.JWTError, ValidationError, Exception): raise TokenError\<close>.\<close>

definition jwt_decode ::
  "jose \<Rightarrow> settings \<Rightarrow> int \<Rightarrow> string \<Rightarrow> exc + int \<times> pyval list" where
  "jwt_decode J cfg now token =
     (case jwt_decode_body J cfg now token of
        Inl e \<Rightarrow>
          if is_JWTError e \<or> e = ValidationError \<or> is_Exception e
          then Inl (TokenError DefaultMsg)
          else Inl e
      | Inr r \<Rightarrow> Inr r)"

text \<open>\<^verbatim>\<open>str(i)\<close> for an integer, as the f-string of \<^verbatim>\<open>jwt_authentication\<close> renders the
  user id.\<close>

definition digit_char :: "nat \<Rightarrow> char" where
  "digit_char n = ''0123456789'' ! n"

fun str_nat :: "nat \<Rightarrow> string" where
  "str_nat n = (if n < 10 then [digit_char n] else str_nat (n div 10) @ [digit_char (n mod 10)])"

declare str_nat.simps [simp del]

definition py_str_int :: "int \<Rightarrow> string" where
  "py_str_int i = (if i < 0 then CHR ''-'' # str_nat (nat (- i)) else str_nat (nat i))"

definition jwt_authentication ::
  "jose \<Rightarrow> settings \<Rightarrow> int \<Rightarrow> string \<Rightarrow> store \<Rightarrow> exc + pydict" where
  "jwt_authentication J cfg now token s =
     (case jwt_decode J cfg now token of
        Inl e \<Rightarrow> Inl e
      | Inr (uid, roles) \<Rightarrow>
          (let key = TOKEN_REDIS_PREFIX cfg @ '':'' @ py_str_int uid @ '':'' @ token;
               token_verify = redis_get key s
           in if token_verify = None \<or> token_verify = Some []
              then Inl (TokenError TokenExpiredMsg)
              else Inr [(''sub'', PInt uid)]))"

text \<open>The users the lookup \<^verbatim>\<open>UserDao.get_with_relation\<close> returns, with the fields the
  module reads.\<close>

record user =
  user_id :: int
  is_active :: bool
  is_superuser :: bool

text \<open>\<^verbatim>\<open>get_current_user\<close>; the lookup of the user by id is its first argument.\<close>

definition get_current_user ::
  "('db \<Rightarrow> pyval \<Rightarrow> user option) \<Rightarrow> 'db \<Rightarrow> pydict \<Rightarrow> exc + user" where
  "get_current_user get_with_relation db data =
     (let uid = dict_get data ''sub''
      in case get_with_relation db uid of
           None \<Rightarrow> Inl (TokenError DefaultMsg)
         | Some u \<Rightarrow>
             if \<not> is_active u then Inl (AuthorizationError UserLockedMsg) else Inr u)"

text \<open>\<^verbatim>\<open>superuser_verify\<close>, on the user the request carries (\<^verbatim>\<open>request.user\<close>).\<close>

definition superuser_verify :: "user \<Rightarrow> exc + bool" where
  "superuser_verify u =
     (if \<not> is_superuser u then Inl (AuthorizationError DefaultMsg) else Inr (is_superuser u))"

section \<open>A configuration and a token table to run the module on\<close>

definition cfg0 :: settings where
  "cfg0 =
     \<lparr>TOKEN_SECRET_KEY = ''secret'', TOKEN_ALGORITHM = ''HS256'',
      TOKEN_EXPIRE_SECONDS = 3600, TOKEN_REFRESH_EXPIRE_SECONDS = 604800,
      TOKEN_REDIS_PREFIX = ''fba_token'', TOKEN_REFRESH_REDIS_PREFIX = ''fba_refresh_token''\<rparr>"

definition roles12 :: pyval where
  "roles12 = PList [PInt 1, PInt 2]"

text \<open>The tokens of the table: access tokens of subject 42 issued at second 0 (without
  roles, with roles, with roles and a name) and at second 10, an access token of
  subject \<^verbatim>\<open>0\<close>, an access token of subject \<^verbatim>\<open>7\<close> issued at second 100, refresh
  tokens of the subjects \<^verbatim>\<open>7\<close> and \<^verbatim>\<open>7:a\<close> anchored at second 100, and a refresh token
  of subject \<^verbatim>\<open>7\<close> that expires at second 17179869184.\<close>

definition tbl0 :: "((pydict \<times> string \<times> string) \<times> string) list" where
  "tbl0 =
     [(([(''exp'', PInt 3600), (''sub'', PStr ''42'')], ''secret'', ''HS256''), ''tokA''),
      (([(''exp'', PInt 3600), (''sub'', PStr ''42''), (''role_ids'', roles12),
         (''name'', PStr ''ann'')], ''secret'', ''HS256''), ''tokB''),
      (([(''exp'', PInt 3600), (''sub'', PStr ''42''), (''role_ids'', roles12),
         (''name'', PStr ''bob'')], ''secret'', ''HS256''), ''tokC''),
      (([(''exp'', PInt 3600), (''sub'', PStr ''42''), (''role_ids'', roles12)],
        ''secret'', ''HS256''), ''tokD''),
      (([(''exp'', PInt 3610), (''sub'', PStr ''42''), (''role_ids'', roles12)],
        ''secret'', ''HS256''), ''tokE''),
      (([(''exp'', PInt 3600), (''sub'', PStr ''0''), (''role_ids'', PList [PInt 1])],
        ''secret'', ''HS256''), ''tokZ''),
      (([(''exp'', PInt 3700), (''sub'', PStr ''7''), (''role_ids'', roles12)],
        ''secret'', ''HS256''), ''tokN''),
      (([(''exp'', PInt 604900), (''sub'', PStr ''7'')], ''secret'', ''HS256''), ''tokR''),
      (([(''exp'', PInt 17179869184), (''sub'', PStr ''7'')], ''secret'', ''HS256''), ''tokF''),
      (([(''exp'', PInt 604900), (''sub'', PStr ''7:a'')], ''secret'', ''HS256''), ''tokS'')]"

definition J0 :: jose where
  "J0 = table_jose tbl0"

text \<open>A user table for the lookup: user 42 is active, user 43 is locked.\<close>

definition users0 :: "(int \<times> user) list" where
  "users0 =
     [(42, \<lparr>user_id = 42, is_active = True, is_superuser = False\<rparr>),
      (43, \<lparr>user_id = 43, is_active = False, is_superuser = False\<rparr>)]"

definition lookup0 :: "(int \<times> user) list \<Rightarrow> pyval \<Rightarrow> user option" where
  "lookup0 db v = (case v of PInt i \<Rightarrow> map_of db i | _ \<Rightarrow> None)"

text \<open>An index that holds an earlier session of subject 42 and one of subject 7.\<close>

definition store0 :: store where
  "store0 =
     [''fba_token:42:old'' \<mapsto> (''old'', 100), ''fba_refresh_token:7:old'' \<mapsto> (''old'', 100)]"

text \<open>The index after a single-session login of subject 42 at second 0, and after a
  second one at second 10.\<close>

definition store1 :: store where
  "store1 =
     (redis_delete_prefix ''fba_token:42:'' store0)(''fba_token:42:tokD'' \<mapsto> (''tokD'', 3600))"

definition store2 :: store where
  "store2 =
     (redis_delete_prefix ''fba_token:42:'' store1)(''fba_token:42:tokE'' \<mapsto> (''tokE'', 3600))"

text \<open>The index after the refresh token of subject 7 was issued at second 50.\<close>

definition store_refresh7 :: store where
  "store_refresh7 = [''fba_refresh_token:7:tokR'' \<mapsto> (''tokR'', 604850)]"

text \<open>The index after the refresh token of the subject \<^verbatim>\<open>7:a\<close> was issued at second 50.\<close>

definition store_alias :: store where
  "store_alias = [''fba_refresh_token:7:a:tokS'' \<mapsto> (''tokS'', 604850)]"

section \<open>Extraction of the bearer token\<close>

lemma partition_space_Nil: "partition_space [] = ([], [])"
  by (simp add: partition_space_def)

text \<open>
  Claim C7. \<open>get_token\<close> returns the text after the first space exactly when the
  Authorization header is present and its scheme, the text before the first space,
  equals \<^verbatim>\<open>bearer\<close> once lowered; every other request raises \<open>TokenError\<close>. The
  header \<^verbatim>\<open>Basic abc123\<close> raises \<open>TokenError\<close>.
\<close>

theorem get_token_bearer_only:
  "get_token req =
     (case headers_get (headers req) ''Authorization'' of
        None \<Rightarrow> Inl (TokenError DefaultMsg)
      | Some a \<Rightarrow>
          if py_lower (fst (partition_space a)) = ''bearer''
          then Inr (snd (partition_space a))
          else Inl (TokenError DefaultMsg))
   \<and> get_token \<lparr>headers = [(''Authorization'', ''Basic abc123'')]\<rparr> = Inl (TokenError DefaultMsg)
   \<and> get_token \<lparr>headers = [(''authorization'', ''BeArEr abc123'')]\<rparr> = Inr ''abc123''"
proof (intro conjI)
  show "get_token req =
     (case headers_get (headers req) ''Authorization'' of
        None \<Rightarrow> Inl (TokenError DefaultMsg)
      | Some a \<Rightarrow>
          if py_lower (fst (partition_space a)) = ''bearer''
          then Inr (snd (partition_space a))
          else Inl (TokenError DefaultMsg))"
    by (auto simp: get_token_def get_authorization_scheme_param_def py_lower_def
        partition_space_Nil split: option.splits prod.splits)
  show "get_token \<lparr>headers = [(''Authorization'', ''Basic abc123'')]\<rparr> = Inl (TokenError DefaultMsg)"
    by (simp add: get_token_def get_authorization_scheme_param_def headers_get_def
        partition_space_def py_lower_def lower_char_def)
  show "get_token \<lparr>headers = [(''authorization'', ''BeArEr abc123'')]\<rparr> = Inr ''abc123''"
    by (simp add: get_token_def get_authorization_scheme_param_def headers_get_def
        partition_space_def py_lower_def lower_char_def)
qed

section \<open>Decoding collapses every failure\<close>

lemma is_Exception_all: "is_Exception e"
  by (cases e) simp_all

lemma jwt_decode_collapse:
  "jwt_decode J cfg now token =
     (case jwt_decode_body J cfg now token of
        Inl e \<Rightarrow> Inl (TokenError DefaultMsg)
      | Inr r \<Rightarrow> Inr r)"
  by (simp add: jwt_decode_def is_Exception_all split: sum.splits)

lemma falsy_py_int: "\<not> truthy v \<Longrightarrow> (\<exists>e. py_int v = Inl e) \<or> py_int v = Inr 0"
  by (cases v rule: truthy.cases) (simp_all add: int_of_str_def py_strip_def trunc_div_def)

lemma falsy_py_list: "\<not> truthy v \<Longrightarrow> (\<exists>e. py_list v = Inl e) \<or> py_list v = Inr []"
  by (cases v rule: truthy.cases) simp_all

lemma jwt_decode_body_Inr:
  "jwt_decode_body J cfg now token = Inr (uid, rs) \<Longrightarrow> uid \<noteq> 0 \<and> rs \<noteq> []"
  by (auto simp: jwt_decode_body_def split: sum.splits if_splits)

text \<open>
  Claim C3. For every token \<open>jwt_decode\<close> either returns a subject id and roles, both
  non-empty, or raises \<open>TokenError\<close> with its default message, and nothing else: every
  exception of the library's decoding (bad signature, malformed payload, expired
  token) and every missing or empty \<^verbatim>\<open>sub\<close> or \<^verbatim>\<open>role_ids\<close> ends in that one error.
\<close>

theorem jwt_decode_single_error_kind:
  "(jwt_decode J cfg now token = Inl (TokenError DefaultMsg)
      \<or> (\<exists>uid rs. jwt_decode J cfg now token = Inr (uid, rs) \<and> uid \<noteq> 0 \<and> rs \<noteq> []))
   \<and> (\<forall>e. lib_decode J token (TOKEN_SECRET_KEY cfg) [TOKEN_ALGORITHM cfg] now = Inl e
         \<longrightarrow> jwt_decode J cfg now token = Inl (TokenError DefaultMsg))
   \<and> (\<forall>payload. lib_decode J token (TOKEN_SECRET_KEY cfg) [TOKEN_ALGORITHM cfg] now = Inr payload
         \<and> (\<not> truthy (dict_get payload ''sub'') \<or> \<not> truthy (dict_get payload ''role_ids''))
         \<longrightarrow> jwt_decode J cfg now token = Inl (TokenError DefaultMsg))"
proof (intro conjI allI impI)
  show "jwt_decode J cfg now token = Inl (TokenError DefaultMsg)
      \<or> (\<exists>uid rs. jwt_decode J cfg now token = Inr (uid, rs) \<and> uid \<noteq> 0 \<and> rs \<noteq> [])"
  proof (cases "jwt_decode_body J cfg now token")
    case (Inl e)
    then show ?thesis by (simp add: jwt_decode_collapse)
  next
    case (Inr r)
    obtain uid rs where r: "r = (uid, rs)" by (cases r)
    with Inr jwt_decode_body_Inr[of J cfg now token uid rs] show ?thesis
      by (simp add: jwt_decode_collapse)
  qed
next
  fix e
  assume "lib_decode J token (TOKEN_SECRET_KEY cfg) [TOKEN_ALGORITHM cfg] now = Inl e"
  then show "jwt_decode J cfg now token = Inl (TokenError DefaultMsg)"
    by (simp add: jwt_decode_collapse jwt_decode_body_def)
next
  fix payload
  assume a: "lib_decode J token (TOKEN_SECRET_KEY cfg) [TOKEN_ALGORITHM cfg] now = Inr payload
         \<and> (\<not> truthy (dict_get payload ''sub'') \<or> \<not> truthy (dict_get payload ''role_ids''))"
  then consider "\<not> truthy (dict_get payload ''sub'')" | "\<not> truthy (dict_get payload ''role_ids'')"
    by blast
  then show "jwt_decode J cfg now token = Inl (TokenError DefaultMsg)"
  proof cases
    case 1
    from falsy_py_int[OF 1] a show ?thesis
      by (auto simp: jwt_decode_collapse jwt_decode_body_def split: sum.splits)
  next
    case 2
    from falsy_py_list[OF 2] a show ?thesis
      by (auto simp: jwt_decode_collapse jwt_decode_body_def split: sum.splits)
  qed
qed

lemmas run_defs = J0_def table_jose_def tbl0_def cfg0_def roles12_def wire_def wire_val_def
  claims_expired_def dict_get_def

theorem jwt_decode_single_error_kind_witness:
  "lib_decode J0 ''garbage'' (TOKEN_SECRET_KEY cfg0) [TOKEN_ALGORITHM cfg0] 0 = Inl JWTError
   \<and> jwt_decode J0 cfg0 0 ''garbage'' = Inl (TokenError DefaultMsg)
   \<and> lib_decode J0 ''tokD'' (TOKEN_SECRET_KEY cfg0) [TOKEN_ALGORITHM cfg0] 3601000000
       = Inl ExpiredSignatureError
   \<and> jwt_decode J0 cfg0 3601000000 ''tokD'' = Inl (TokenError DefaultMsg)
   \<and> lib_decode J0 ''tokA'' (TOKEN_SECRET_KEY cfg0) [TOKEN_ALGORITHM cfg0] 0
       = Inr [(''exp'', PInt 3600), (''sub'', PStr ''42'')]
   \<and> \<not> truthy (dict_get [(''exp'', PInt 3600), (''sub'', PStr ''42'')] ''role_ids'')
   \<and> jwt_decode J0 cfg0 0 ''tokA'' = Inl (TokenError DefaultMsg)"
proof -
  have a: "lib_decode J0 ''garbage'' (TOKEN_SECRET_KEY cfg0) [TOKEN_ALGORITHM cfg0] 0 = Inl JWTError"
    by (simp add: run_defs)
  have b: "lib_decode J0 ''tokD'' (TOKEN_SECRET_KEY cfg0) [TOKEN_ALGORITHM cfg0] 3601000000
       = Inl ExpiredSignatureError"
    by (simp add: run_defs)
  have c: "lib_decode J0 ''tokA'' (TOKEN_SECRET_KEY cfg0) [TOKEN_ALGORITHM cfg0] 0
       = Inr [(''exp'', PInt 3600), (''sub'', PStr ''42'')]"
    by (simp add: run_defs)
  have d: "\<not> truthy (dict_get [(''exp'', PInt 3600), (''sub'', PStr ''42'')] ''role_ids'')"
    by (simp add: dict_get_def)
  from a jwt_decode_single_error_kind[of J0 cfg0 0 "''garbage''"]
  have a': "jwt_decode J0 cfg0 0 ''garbage'' = Inl (TokenError DefaultMsg)" by blast
  from b jwt_decode_single_error_kind[of J0 cfg0 3601000000 "''tokD''"]
  have b': "jwt_decode J0 cfg0 3601000000 ''tokD'' = Inl (TokenError DefaultMsg)" by blast
  from c d jwt_decode_single_error_kind[of J0 cfg0 0 "''tokA''"]
  have c': "jwt_decode J0 cfg0 0 ''tokA'' = Inl (TokenError DefaultMsg)" by blast
  from a a' b b' c c' d show ?thesis by blast
qed

section \<open>A zero subject id is refused\<close>

text \<open>
  Claim C10. When the library decodes the token (valid signature, not expired) and the
  \<^verbatim>\<open>sub\<close> claim converts to the integer 0, \<open>jwt_decode\<close> raises \<open>TokenError\<close>, whatever
  the roles are: the test \<^verbatim>\<open>not user_id\<close> refuses a subject id that is present and zero.
\<close>

theorem jwt_decode_zero_subject:
  "lib_decode J token (TOKEN_SECRET_KEY cfg) [TOKEN_ALGORITHM cfg] now = Inr payload
   \<Longrightarrow> py_int (dict_get payload ''sub'') = Inr 0
   \<Longrightarrow> jwt_decode J cfg now token = Inl (TokenError DefaultMsg)"
  by (simp add: jwt_decode_collapse jwt_decode_body_def split: sum.splits)

lemmas int_defs = int_of_str_def py_strip_def is_space_def is_digit_def digits_val_def
  digit_val_def

theorem jwt_decode_zero_subject_witness:
  "lib_decode J0 ''tokZ'' (TOKEN_SECRET_KEY cfg0) [TOKEN_ALGORITHM cfg0] 0
     = Inr [(''exp'', PInt 3600), (''sub'', PStr ''0''), (''role_ids'', PList [PInt 1])]
   \<and> py_int (dict_get [(''exp'', PInt 3600), (''sub'', PStr ''0''),
        (''role_ids'', PList [PInt 1])] ''sub'') = Inr 0
   \<and> py_list (dict_get [(''exp'', PInt 3600), (''sub'', PStr ''0''),
        (''role_ids'', PList [PInt 1])] ''role_ids'') = Inr [PInt 1]
   \<and> jwt_decode J0 cfg0 0 ''tokZ'' = Inl (TokenError DefaultMsg)"
proof -
  have a: "lib_decode J0 ''tokZ'' (TOKEN_SECRET_KEY cfg0) [TOKEN_ALGORITHM cfg0] 0
     = Inr [(''exp'', PInt 3600), (''sub'', PStr ''0''), (''role_ids'', PList [PInt 1])]"
    by (simp add: run_defs)
  have b: "py_int (dict_get [(''exp'', PInt 3600), (''sub'', PStr ''0''),
        (''role_ids'', PList [PInt 1])] ''sub'') = Inr 0"
    by (simp add: dict_get_def int_defs)
  have c: "py_list (dict_get [(''exp'', PInt 3600), (''sub'', PStr ''0''),
        (''role_ids'', PList [PInt 1])] ''role_ids'') = Inr [PInt 1]"
    by (simp add: dict_get_def)
  from jwt_decode_zero_subject[OF a b] a b c show ?thesis by simp
qed

section \<open>Resolving the user\<close>

text \<open>
  Claim C6. For every \<open>data\<close> (the subject id left by decoding and the revocation
  check), \<open>get_current_user\<close> raises \<open>TokenError\<close> when the lookup finds no user, raises
  \<open>AuthorizationError\<close> when the user it finds is not active, and returns the user
  otherwise; \<open>TokenError\<close> and \<open>AuthorizationError\<close> are different exceptions.
\<close>

theorem get_current_user_outcomes:
  "(lookup db (dict_get data ''sub'') = None
      \<longrightarrow> get_current_user lookup db data = Inl (TokenError DefaultMsg))
   \<and> (\<forall>u. lookup db (dict_get data ''sub'') = Some u \<and> \<not> is_active u
      \<longrightarrow> get_current_user lookup db data = Inl (AuthorizationError UserLockedMsg))
   \<and> (\<forall>u. lookup db (dict_get data ''sub'') = Some u \<and> is_active u
      \<longrightarrow> get_current_user lookup db data = Inr u)
   \<and> (\<forall>m m'. TokenError m \<noteq> AuthorizationError m')"
  by (simp add: get_current_user_def)

theorem get_current_user_outcomes_witness:
  "jwt_authentication J0 cfg0 0 ''tokD'' (store0(''fba_token:42:tokD'' \<mapsto> (''tokD'', 3600)))
     = Inr [(''sub'', PInt 42)]
   \<and> lookup0 users0 (dict_get [(''sub'', PInt 7)] ''sub'') = None
   \<and> get_current_user lookup0 users0 [(''sub'', PInt 7)] = Inl (TokenError DefaultMsg)
   \<and> lookup0 users0 (dict_get [(''sub'', PInt 43)] ''sub'')
       = Some \<lparr>user_id = 43, is_active = False, is_superuser = False\<rparr>
   \<and> get_current_user lookup0 users0 [(''sub'', PInt 43)]
       = Inl (AuthorizationError UserLockedMsg)
   \<and> lookup0 users0 (dict_get [(''sub'', PInt 42)] ''sub'')
       = Some \<lparr>user_id = 42, is_active = True, is_superuser = False\<rparr>
   \<and> get_current_user lookup0 users0 [(''sub'', PInt 42)]
       = Inr \<lparr>user_id = 42, is_active = True, is_superuser = False\<rparr>"
proof -
  have v: "jwt_authentication J0 cfg0 0 ''tokD''
              (store0(''fba_token:42:tokD'' \<mapsto> (''tokD'', 3600)))
     = Inr [(''sub'', PInt 42)]"
    by (simp add: jwt_authentication_def jwt_decode_collapse jwt_decode_body_def run_defs
        int_defs py_str_int_def str_nat.simps digit_char_def redis_get_def)
  have a: "lookup0 users0 (dict_get [(''sub'', PInt 7)] ''sub'') = None"
    by (simp add: lookup0_def users0_def dict_get_def)
  have b: "lookup0 users0 (dict_get [(''sub'', PInt 43)] ''sub'')
       = Some \<lparr>user_id = 43, is_active = False, is_superuser = False\<rparr>"
    by (simp add: lookup0_def users0_def dict_get_def)
  have c: "lookup0 users0 (dict_get [(''sub'', PInt 42)] ''sub'')
       = Some \<lparr>user_id = 42, is_active = True, is_superuser = False\<rparr>"
    by (simp add: lookup0_def users0_def dict_get_def)
  from a get_current_user_outcomes[of lookup0 users0 "[(''sub'', PInt 7)]"]
  have a': "get_current_user lookup0 users0 [(''sub'', PInt 7)] = Inl (TokenError DefaultMsg)"
    by blast
  from b get_current_user_outcomes[of lookup0 users0 "[(''sub'', PInt 43)]"]
  have b': "get_current_user lookup0 users0 [(''sub'', PInt 43)]
       = Inl (AuthorizationError UserLockedMsg)"
    by simp
  from c get_current_user_outcomes[of lookup0 users0 "[(''sub'', PInt 42)]"]
  have c': "get_current_user lookup0 users0 [(''sub'', PInt 42)]
       = Inr \<lparr>user_id = 42, is_active = True, is_superuser = False\<rparr>"
    by simp
  from v a a' b b' c c' show ?thesis by blast
qed

section \<open>Evaluating expiries\<close>

lemmas expiry_defs = access_expiry_def refresh_expiry_def datetime_plus_seconds_def
  timedelta_seconds_def datetime_add_def datetime_min_def datetime_max_def

lemma bit_length_million: "bit_length (nat 1000000) = 20"
  by (simp add: bit_length.simps)

lemma true_divide_604850: "true_divide 604850000000 1000000 = Finite 5195621937971200 (- 33)"
proof -
  have "bit_length (nat \<bar>604850000000\<bar>) = 40" by (simp add: bit_length.simps)
  then show ?thesis
    unfolding true_divide_def Let_def bit_length_million round_half_even_def by simp
qed

lemma int_total_seconds_604850: "int_total_seconds 604850000000 = 604850"
  unfolding int_total_seconds_def total_seconds_def true_divide_604850
  by (simp add: trunc_div_def)

text \<open>A second more than the whole seconds: the double nearest to 17179869184.999999
  is 17179869185.\<close>

lemma true_divide_rounds_up:
  "true_divide 17179869184999999 1000000 = Finite 4503599627632640 (- 18)"
proof -
  have "bit_length (nat \<bar>17179869184999999\<bar>) = 54" by (simp add: bit_length.simps)
  then show ?thesis
    unfolding true_divide_def Let_def bit_length_million round_half_even_def by simp
qed

lemma int_total_seconds_rounds_up: "int_total_seconds 17179869184999999 = 17179869185"
  unfolding int_total_seconds_def total_seconds_def true_divide_rounds_up
  by (simp add: trunc_div_def)

text \<open>
  Below \<open>2 ^ 34\<close> seconds the double holds the quotient to better than a microsecond, and
  \<^verbatim>\<open>int(d.total_seconds())\<close> is the whole number of seconds of \<open>d\<close>, rounded towards
  zero.
\<close>

lemma bit_length_bounds: "0 < n \<Longrightarrow> 2 ^ (bit_length n - 1) \<le> n \<and> n < 2 ^ bit_length n"
proof (induction n rule: bit_length.induct)
  case (1 n)
  show ?case
  proof (cases "n div 2 = 0")
    case True
    with "1.prems" have "n = 1" by auto
    then show ?thesis by (simp add: bit_length.simps)
  next
    case False
    then have pos: "0 < n div 2" by simp
    from "1.prems" have n0: "n \<noteq> 0" by simp
    from "1.IH"[OF n0 pos]
    have ih: "2 ^ (bit_length (n div 2) - 1) \<le> n div 2" "n div 2 < 2 ^ bit_length (n div 2)"
      by simp_all
    have bl: "bit_length n = Suc (bit_length (n div 2))"
      using n0 by (subst bit_length.simps) simp
    have blpos: "0 < bit_length (n div 2)"
      using pos by (subst bit_length.simps) simp
    then obtain j where j: "bit_length (n div 2) = Suc j" by (cases "bit_length (n div 2)") auto
    from ih j have "2 * 2 ^ j \<le> 2 * (n div 2)" by simp
    then have lo: "2 ^ Suc j \<le> n" by simp
    from ih(2) j have "n div 2 < 2 ^ Suc j" by simp
    then have hi: "n < 2 ^ Suc (Suc j)" by simp
    from lo hi show ?thesis by (simp add: bl j)
  qed
qed


lemma round_half_even_cases:
  "round_half_even n d = n div d
   \<or> (round_half_even n d = n div d + 1 \<and> d \<le> 2 * (n mod d))"
  by (auto simp: round_half_even_def Let_def)

lemma mantissa_truncates:
  fixes n P :: int
  assumes n: "0 \<le> n" and P: "524288 \<le> P"
  shows "round_half_even (n * P) 1000000 div P = n div 1000000"
proof -
  define q r where "q = n div 1000000" and "r = n mod 1000000"
  define D U where "D = (n * P) div 1000000" and "U = (n * P) mod 1000000"
  define m where "m = round_half_even (n * P) 1000000"
  have nqr: "n = 1000000 * q + r" and r: "0 \<le> r" "r \<le> 999999"
    by (simp_all add: q_def r_def)
  have NDU: "n * P = 1000000 * D + U" and U: "0 \<le> U" "U < 1000000"
    by (simp_all add: D_def U_def)
  have q0: "0 \<le> q" using n by (simp add: q_def pos_imp_zdiv_nonneg_iff)
  have Ppos: "0 < P" using P by simp
  have Y: "0 \<le> r * P" "r * P \<le> 999999 * P"
    using r Ppos by (simp_all add: mult_right_mono)
  have N: "n * P = 1000000 * (q * P) + r * P"
    by (simp add: nqr algebra_simps)
  from round_half_even_cases[of "n * P" 1000000]
  have m: "m = D \<or> (m = D + 1 \<and> 1000000 \<le> 2 * U)"
    by (simp add: m_def D_def U_def)
  have lo: "q * P \<le> m" using m NDU U N Y by linarith
  have hi: "m < q * P + P" using m NDU U N Y P by linarith
  have "m div P = q"
  proof (rule int_div_pos_eq[where r = "m - q * P"])
    show "m = P * q + (m - q * P)" by (simp add: algebra_simps)
    show "0 \<le> m - q * P" using lo by simp
    show "m - q * P < P" using hi by simp
  qed
  then show ?thesis by (simp add: m_def q_def)
qed


lemma bit_length_million_nat: "bit_length 1000000 = 20"
  by (simp add: bit_length.simps)

lemma true_divide_exponent:
  fixes n :: int
  assumes "0 < n" "n < 17179869184000000"
  defines "k0 \<equiv> 52 - int (bit_length (nat n)) + int (bit_length (nat 1000000))"
  defines "k \<equiv> (if 2 ^ 52 * (1000000 * 2 ^ nat (- k0)) \<le> n * 2 ^ nat k0 then k0 else k0 + 1)"
  shows "19 \<le> k"
proof -
  define la where "la = bit_length (nat n)"
  from assms(1) have "0 < nat n" by simp
  from bit_length_bounds[OF this] have lo: "2 ^ (la - 1) \<le> nat n"
    by (simp add: la_def)
  from assms(2) have "nat n < 2 ^ 54" by simp
  with lo have "(2::nat) ^ (la - 1) < 2 ^ 54" by linarith
  then have "la - 1 < 54" by (simp only: power_strict_increasing_iff) 
  then have la: "la \<le> 54" by simp
  have k0: "k0 = 72 - int la" by (simp add: k0_def la_def bit_length_million_nat)
  with la have k0_18: "18 \<le> k0" by simp
  show ?thesis
  proof (cases "2 ^ 52 * (1000000 * 2 ^ nat (- k0)) \<le> n * 2 ^ nat k0")
    case False
    with k0_18 show ?thesis by (simp add: k_def)
  next
    case True
    from k0_18 have "nat (- k0) = 0" by simp
    with True have "(2::int) ^ 52 * 1000000 \<le> n * 2 ^ nat k0" by simp
    also from assms(2) have "n * 2 ^ nat k0 < 17179869184000000 * 2 ^ nat k0"
      by (simp add: mult_strict_right_mono)
    finally have "(2::int) ^ 52 < 2 ^ 34 * 2 ^ nat k0" by simp
    then have "(2::int) ^ 52 < 2 ^ (34 + nat k0)" by (simp add: power_add)
    then have "52 < 34 + nat k0" by (simp only: power_strict_increasing_iff)
    with True show ?thesis by (simp add: k_def)
  qed
qed

lemma int_total_seconds_exact:
  assumes "\<bar>d\<bar> < 17179869184000000"
  shows "int_total_seconds d = trunc_div d 1000000"
proof (cases "d = 0")
  case True
  then show ?thesis
    by (simp add: int_total_seconds_def total_seconds_def true_divide_def trunc_div_def)
next
  case False
  define n where "n = \<bar>d\<bar>"
  define k0 where "k0 = 52 - int (bit_length (nat n)) + int (bit_length (nat 1000000))"
  define k where
    "k = (if 2 ^ 52 * (1000000 * 2 ^ nat (- k0)) \<le> n * 2 ^ nat k0 then k0 else k0 + 1)"
  define m where "m = round_half_even (n * 2 ^ nat k) (1000000 * 2 ^ nat (- k))"
  from False assms have n: "0 < n" "n < 17179869184000000" by (simp_all add: n_def)
  have k: "19 \<le> k" unfolding k_def k0_def by (rule true_divide_exponent[OF n])
  then have nk: "nat (- k) = 0" and kneg: "\<not> 0 \<le> - k" by simp_all
  have td: "true_divide d 1000000 = Finite (sgn d * m) (- k)"
    using False by (simp add: true_divide_def Let_def m_def k_def k0_def n_def)
  from k have "19 \<le> nat k" by simp
  then have "(2::int) ^ 19 \<le> 2 ^ nat k" by (rule power_increasing) simp
  then have P: "524288 \<le> (2::int) ^ nat k" by simp
  from n(1) have "0 \<le> n" by simp
  from mantissa_truncates[OF this P] have mq: "m div 2 ^ nat k = n div 1000000"
    by (simp add: m_def nk)
  have its: "int_total_seconds d = trunc_div (sgn d * m) (2 ^ nat k)"
    using kneg by (simp add: int_total_seconds_def total_seconds_def td)
  have m0: "0 \<le> m"
    using \<open>0 \<le> n\<close> by (auto simp: m_def round_half_even_def Let_def nk
        intro!: pos_imp_zdiv_nonneg_iff[THEN iffD2] add_nonneg_nonneg)
  show ?thesis
  proof (cases "0 < d")
    case True
    with m0 mq show ?thesis by (simp add: its trunc_div_def n_def)
  next
    case neg: False
    with False have dneg: "d < 0" by simp
    show ?thesis
    proof (cases "m = 0")
      case True
      with mq dneg show ?thesis by (simp add: its trunc_div_def n_def)
    next
      case mnz: False
      with m0 have "0 < m" by simp
      with mq dneg show ?thesis by (simp add: its trunc_div_def n_def)
    qed
  qed
qed

section \<open>Refresh tokens anchored at a given time\<close>

lemmas issue_defs = create_access_token_def create_refresh_token_def redis_setex_def
  redis_delete_prefix_def redis_get_def dict_merge_def expiry_defs int_total_seconds_604850
  Let_def

text \<open>
  Claim C2. With an anchor time \<open>T\<close>, \<open>create_refresh_token\<close> returns the expiry
  \<open>T\<close> plus \<^verbatim>\<open>TOKEN_REFRESH_EXPIRE_SECONDS\<close>, in which the current time does not occur,
  and registers the token with the ttl \<^verbatim>\<open>int((expire - now).total_seconds())\<close>, the
  seconds from now until that expiry. Whenever the call returns this is what it returned
  and stored; it does return when the expiry is a \<^verbatim>\<open>datetime\<close>, the library encodes the
  claims and that ttl is not negative; and it raises, the index unchanged, when the
  expiry overflows. For an expiry less than \<open>2 ^ 34\<close> seconds away the ttl is the whole
  number of seconds between now and the expiry.
\<close>

theorem create_refresh_token_anchor:
  "(\<forall>tok e s'. create_refresh_token J cfg now sub (Some T) kwargs s = (Inr (tok, e), s')
      \<longrightarrow> e = T + TOKEN_REFRESH_EXPIRE_SECONDS cfg * 1000000
        \<and> s' (TOKEN_REFRESH_REDIS_PREFIX cfg @ '':'' @ sub @ '':'' @ tok)
            = Some (tok, int_total_seconds (e - now)))
   \<and> (\<forall>tok e. datetime_plus_seconds T (TOKEN_REFRESH_EXPIRE_SECONDS cfg) = Inr e
        \<and> lib_encode J
             (dict_merge [(''exp'', PDatetime e), (''sub'', PStr sub)]
                (AList.delete ''multi_login'' kwargs))
             (TOKEN_SECRET_KEY cfg) (TOKEN_ALGORITHM cfg) = Inr tok
        \<and> 0 \<le> int_total_seconds (e - now)
      \<longrightarrow> fst (create_refresh_token J cfg now sub (Some T) kwargs s) = Inr (tok, e))
   \<and> (\<forall>x. datetime_plus_seconds T (TOKEN_REFRESH_EXPIRE_SECONDS cfg) = Inl x
      \<longrightarrow> create_refresh_token J cfg now sub (Some T) kwargs s = (Inl x, s))
   \<and> (\<forall>tok e s'. create_refresh_token J cfg now sub (Some T) kwargs s = (Inr (tok, e), s')
        \<and> \<bar>e - now\<bar> < 17179869184000000
      \<longrightarrow> s' (TOKEN_REFRESH_REDIS_PREFIX cfg @ '':'' @ sub @ '':'' @ tok)
            = Some (tok, trunc_div (e - now) 1000000))"
proof (intro conjI allI impI)
  fix tok e s'
  assume run: "create_refresh_token J cfg now sub (Some T) kwargs s = (Inr (tok, e), s')"
  then have exp: "datetime_plus_seconds T (TOKEN_REFRESH_EXPIRE_SECONDS cfg) = Inr e"
    by (auto simp: create_refresh_token_def refresh_expiry_def redis_setex_def Let_def
        split: sum.splits if_splits prod.splits)
  then show "e = T + TOKEN_REFRESH_EXPIRE_SECONDS cfg * 1000000"
    by (auto simp: datetime_plus_seconds_def timedelta_seconds_def datetime_add_def
        split: if_splits)
  from run exp
  show "s' (TOKEN_REFRESH_REDIS_PREFIX cfg @ '':'' @ sub @ '':'' @ tok)
            = Some (tok, int_total_seconds (e - now))"
    by (auto simp: create_refresh_token_def refresh_expiry_def redis_setex_def Let_def
        split: sum.splits if_splits prod.splits)
next
  fix tok e
  assume "datetime_plus_seconds T (TOKEN_REFRESH_EXPIRE_SECONDS cfg) = Inr e
        \<and> lib_encode J
             (dict_merge [(''exp'', PDatetime e), (''sub'', PStr sub)]
                (AList.delete ''multi_login'' kwargs))
             (TOKEN_SECRET_KEY cfg) (TOKEN_ALGORITHM cfg) = Inr tok
        \<and> 0 \<le> int_total_seconds (e - now)"
  then show "fst (create_refresh_token J cfg now sub (Some T) kwargs s) = Inr (tok, e)"
    by (simp add: create_refresh_token_def refresh_expiry_def redis_setex_def Let_def)
next
  fix x
  assume "datetime_plus_seconds T (TOKEN_REFRESH_EXPIRE_SECONDS cfg) = Inl x"
  then show "create_refresh_token J cfg now sub (Some T) kwargs s = (Inl x, s)"
    by (simp add: create_refresh_token_def refresh_expiry_def)
next
  fix tok e s'
  assume a: "create_refresh_token J cfg now sub (Some T) kwargs s = (Inr (tok, e), s')
        \<and> \<bar>e - now\<bar> < 17179869184000000"
  then have exp: "datetime_plus_seconds T (TOKEN_REFRESH_EXPIRE_SECONDS cfg) = Inr e"
    by (auto simp: create_refresh_token_def refresh_expiry_def redis_setex_def Let_def
        split: sum.splits if_splits prod.splits)
  with a have "s' (TOKEN_REFRESH_REDIS_PREFIX cfg @ '':'' @ sub @ '':'' @ tok)
            = Some (tok, int_total_seconds (e - now))"
    by (auto simp: create_refresh_token_def refresh_expiry_def redis_setex_def Let_def
        split: sum.splits if_splits prod.splits)
  with a show "s' (TOKEN_REFRESH_REDIS_PREFIX cfg @ '':'' @ sub @ '':'' @ tok)
            = Some (tok, trunc_div (e - now) 1000000)"
    by (simp add: int_total_seconds_exact)
qed

theorem create_refresh_token_anchor_witness:
  "create_refresh_token J0 cfg0 50000000 ''7'' (Some 100000000) [] Map.empty
     = (Inr (''tokR'', 604900000000), store_refresh7)
   \<and> 604900000000 = 100000000 + TOKEN_REFRESH_EXPIRE_SECONDS cfg0 * 1000000
   \<and> store_refresh7 (TOKEN_REFRESH_REDIS_PREFIX cfg0 @ '':'' @ ''7'' @ '':'' @ ''tokR'')
       = Some (''tokR'', int_total_seconds (604900000000 - 50000000))
   \<and> int_total_seconds (604900000000 - 50000000) = 604850
   \<and> store_refresh7 (TOKEN_REFRESH_REDIS_PREFIX cfg0 @ '':'' @ ''7'' @ '':'' @ ''tokR'')
       = Some (''tokR'', trunc_div (604900000000 - 50000000) 1000000)
   \<and> create_refresh_token J0 cfg0 0 ''7'' (Some 17179264384999999) [] Map.empty
       = (Inr (''tokF'', 17179869184999999),
          [''fba_refresh_token:7:tokF'' \<mapsto> (''tokF'', 17179869185)])
   \<and> int_total_seconds (17179869184999999 - 0) = 17179869185
   \<and> datetime_plus_seconds 253402300799999999 (TOKEN_REFRESH_EXPIRE_SECONDS cfg0)
       = Inl OverflowError
   \<and> create_refresh_token J0 cfg0 0 ''7'' (Some 253402300799999999) [] store_refresh7
       = (Inl OverflowError, store_refresh7)"
proof -
  have run: "create_refresh_token J0 cfg0 50000000 ''7'' (Some 100000000) [] Map.empty
     = (Inr (''tokR'', 604900000000), store_refresh7)"
    by (simp add: issue_defs run_defs store_refresh7_def)
  have run2: "create_refresh_token J0 cfg0 0 ''7'' (Some 17179264384999999) [] Map.empty
       = (Inr (''tokF'', 17179869184999999),
          [''fba_refresh_token:7:tokF'' \<mapsto> (''tokF'', 17179869185)])"
    by (simp add: issue_defs run_defs int_total_seconds_rounds_up)
  have ttl: "int_total_seconds (604900000000 - 50000000) = 604850"
    by (simp add: int_total_seconds_604850)
  have ttl2: "int_total_seconds (17179869184999999 - 0) = 17179869185"
    by (simp add: int_total_seconds_rounds_up)
  have over: "datetime_plus_seconds 253402300799999999 (TOKEN_REFRESH_EXPIRE_SECONDS cfg0)
       = Inl OverflowError"
    by (simp add: expiry_defs cfg0_def)
  note w = create_refresh_token_anchor[of J0 cfg0 50000000 "''7''" 100000000 "[]" Map.empty]
  from w run
  have a: "604900000000 = 100000000 + TOKEN_REFRESH_EXPIRE_SECONDS cfg0 * 1000000
     \<and> store_refresh7 (TOKEN_REFRESH_REDIS_PREFIX cfg0 @ '':'' @ ''7'' @ '':'' @ ''tokR'')
       = Some (''tokR'', int_total_seconds (604900000000 - 50000000))"
    by blast
  have "\<bar>604900000000 - 50000000\<bar> < (17179869184000000::int)" by simp
  with w run
  have c: "store_refresh7 (TOKEN_REFRESH_REDIS_PREFIX cfg0 @ '':'' @ ''7'' @ '':'' @ ''tokR'')
       = Some (''tokR'', trunc_div (604900000000 - 50000000) 1000000)"
    by blast
  from create_refresh_token_anchor[of J0 cfg0 0 "''7''" 253402300799999999 "[]" store_refresh7]
    over
  have b: "create_refresh_token J0 cfg0 0 ''7'' (Some 253402300799999999) [] store_refresh7
       = (Inl OverflowError, store_refresh7)"
    by blast
  from run run2 ttl ttl2 over a b c show ?thesis by blast
qed

section \<open>Single-session mode\<close>

lemma create_access_token_store:
  "create_access_token J cfg now sub d kwargs s = (Inr (tok, e), s')
   \<Longrightarrow> \<exists>ttl. s' =
         (if dict_get kwargs ''multi_login'' = PBool False
          then redis_delete_prefix (TOKEN_REDIS_PREFIX cfg @ '':'' @ sub @ '':'') s
          else s)
         (TOKEN_REDIS_PREFIX cfg @ '':'' @ sub @ '':'' @ tok \<mapsto> (tok, ttl))"
  by (auto simp: create_access_token_def redis_setex_def Let_def
      split: sum.splits if_splits option.splits prod.splits)

lemma create_refresh_token_store:
  "create_refresh_token J cfg now sub t kwargs s = (Inr (tok, e), s')
   \<Longrightarrow> \<exists>ttl. s' =
         (if dict_get kwargs ''multi_login'' = PBool False
          then redis_delete_prefix (TOKEN_REFRESH_REDIS_PREFIX cfg @ '':'' @ sub @ '':'') s
          else s)
         (TOKEN_REFRESH_REDIS_PREFIX cfg @ '':'' @ sub @ '':'' @ tok \<mapsto> (tok, ttl))"
  by (auto simp: create_refresh_token_def redis_setex_def Let_def
      split: sum.splits if_splits option.splits prod.splits)

lemma create_access_token_store_failed:
  "create_access_token J cfg now sub d kwargs s = (Inl x, s')
   \<Longrightarrow> s' = s \<or> (dict_get kwargs ''multi_login'' = PBool False
         \<and> s' = redis_delete_prefix (TOKEN_REDIS_PREFIX cfg @ '':'' @ sub @ '':'') s)"
  by (auto simp: create_access_token_def redis_setex_def Let_def
      split: sum.splits if_splits option.splits prod.splits)

lemma create_refresh_token_store_failed:
  "create_refresh_token J cfg now sub t kwargs s = (Inl x, s')
   \<Longrightarrow> s' = s \<or> (dict_get kwargs ''multi_login'' = PBool False
         \<and> s' = redis_delete_prefix (TOKEN_REFRESH_REDIS_PREFIX cfg @ '':'' @ sub @ '':'') s)"
  by (auto simp: create_refresh_token_def redis_setex_def Let_def
      split: sum.splits if_splits option.splits prod.splits)

lemma multi_login_frame:
  "(dict_get kwargs ''multi_login'' \<noteq> PBool False \<longrightarrow>
      (\<forall>r s'. create_access_token J cfg now sub d kwargs s = (r, s') \<longrightarrow>
         (case r of
            Inl x \<Rightarrow> s' = s
          | Inr (tok, e) \<Rightarrow>
              \<exists>ttl. s' = s(TOKEN_REDIS_PREFIX cfg @ '':'' @ sub @ '':'' @ tok \<mapsto> (tok, ttl))))
      \<and> (\<forall>r s'. create_refresh_token J cfg now sub t kwargs s = (r, s') \<longrightarrow>
         (case r of
            Inl x \<Rightarrow> s' = s
          | Inr (tok, e) \<Rightarrow>
              \<exists>ttl. s' =
                s(TOKEN_REFRESH_REDIS_PREFIX cfg @ '':'' @ sub @ '':'' @ tok \<mapsto> (tok, ttl)))))
   \<and> (dict_get kwargs ''multi_login'' = PBool False \<longrightarrow>
      (\<forall>tok e s'. create_access_token J cfg now sub d kwargs s = (Inr (tok, e), s') \<longrightarrow>
         (\<exists>ttl. s' =
            (redis_delete_prefix (TOKEN_REDIS_PREFIX cfg @ '':'' @ sub @ '':'') s)
            (TOKEN_REDIS_PREFIX cfg @ '':'' @ sub @ '':'' @ tok \<mapsto> (tok, ttl))))
      \<and> (\<forall>tok e s'. create_refresh_token J cfg now sub t kwargs s = (Inr (tok, e), s') \<longrightarrow>
         (\<exists>ttl. s' =
            (redis_delete_prefix (TOKEN_REFRESH_REDIS_PREFIX cfg @ '':'' @ sub @ '':'') s)
            (TOKEN_REFRESH_REDIS_PREFIX cfg @ '':'' @ sub @ '':'' @ tok \<mapsto> (tok, ttl)))))"
proof (intro conjI impI allI)
  fix r s'
  assume ml: "dict_get kwargs ''multi_login'' \<noteq> PBool False"
     and run: "create_access_token J cfg now sub d kwargs s = (r, s')"
  show "case r of
          Inl x \<Rightarrow> s' = s
        | Inr (tok, e) \<Rightarrow>
            \<exists>ttl. s' = s(TOKEN_REDIS_PREFIX cfg @ '':'' @ sub @ '':'' @ tok \<mapsto> (tok, ttl))"
  proof (cases r)
    case (Inl x)
    with run ml create_access_token_store_failed[of J cfg now sub d kwargs s x s']
    show ?thesis by simp
  next
    case (Inr p)
    obtain tok e where p: "p = (tok, e)" by (cases p)
    with Inr run ml create_access_token_store[of J cfg now sub d kwargs s tok e s']
    show ?thesis by simp
  qed
next
  fix r s'
  assume ml: "dict_get kwargs ''multi_login'' \<noteq> PBool False"
     and run: "create_refresh_token J cfg now sub t kwargs s = (r, s')"
  show "case r of
          Inl x \<Rightarrow> s' = s
        | Inr (tok, e) \<Rightarrow>
            \<exists>ttl. s' =
              s(TOKEN_REFRESH_REDIS_PREFIX cfg @ '':'' @ sub @ '':'' @ tok \<mapsto> (tok, ttl))"
  proof (cases r)
    case (Inl x)
    with run ml create_refresh_token_store_failed[of J cfg now sub t kwargs s x s']
    show ?thesis by simp
  next
    case (Inr p)
    obtain tok e where p: "p = (tok, e)" by (cases p)
    with Inr run ml create_refresh_token_store[of J cfg now sub t kwargs s tok e s']
    show ?thesis by simp
  qed
next
  fix tok e s'
  assume "dict_get kwargs ''multi_login'' = PBool False"
     and "create_access_token J cfg now sub d kwargs s = (Inr (tok, e), s')"
  then show "\<exists>ttl. s' =
            (redis_delete_prefix (TOKEN_REDIS_PREFIX cfg @ '':'' @ sub @ '':'') s)
            (TOKEN_REDIS_PREFIX cfg @ '':'' @ sub @ '':'' @ tok \<mapsto> (tok, ttl))"
    using create_access_token_store[of J cfg now sub d kwargs s tok e s'] by simp
next
  fix tok e s'
  assume "dict_get kwargs ''multi_login'' = PBool False"
     and "create_refresh_token J cfg now sub t kwargs s = (Inr (tok, e), s')"
  then show "\<exists>ttl. s' =
            (redis_delete_prefix (TOKEN_REFRESH_REDIS_PREFIX cfg @ '':'' @ sub @ '':'') s)
            (TOKEN_REFRESH_REDIS_PREFIX cfg @ '':'' @ sub @ '':'' @ tok \<mapsto> (tok, ttl))"
    using create_refresh_token_store[of J cfg now sub t kwargs s tok e s'] by simp
qed



text \<open>
  Claim C8. In \<open>create_access_token\<close> and in \<open>create_refresh_token\<close> the prefix delete
  happens exactly when \<^verbatim>\<open>multi_login\<close> is \<^verbatim>\<open>False\<close>. Each of the two returns when its
  expiry is a \<^verbatim>\<open>datetime\<close>, the library encodes the claims and the ttl is not negative,
  and the index it leaves is then the old one, with the entries under the subject's
  prefix deleted when \<^verbatim>\<open>multi_login\<close> is \<^verbatim>\<open>False\<close> and untouched otherwise, plus the new
  entry. With any value but \<^verbatim>\<open>False\<close>, or without the keyword, a call that returns has
  changed the index only by adding the new entry, and a call that raises has not
  changed it.
\<close>

theorem prefix_delete_iff_multi_login_False:
  "(\<forall>e ttl tok. access_expiry cfg now d = Inr (e, ttl)
        \<and> lib_encode J
             (dict_merge [(''exp'', PDatetime e), (''sub'', PStr sub)]
                (AList.delete ''multi_login'' kwargs))
             (TOKEN_SECRET_KEY cfg) (TOKEN_ALGORITHM cfg) = Inr tok
        \<and> 0 \<le> ttl
      \<longrightarrow> create_access_token J cfg now sub d kwargs s
            = (Inr (tok, e),
               (if dict_get kwargs ''multi_login'' = PBool False
                then redis_delete_prefix (TOKEN_REDIS_PREFIX cfg @ '':'' @ sub @ '':'') s
                else s)
               (TOKEN_REDIS_PREFIX cfg @ '':'' @ sub @ '':'' @ tok \<mapsto> (tok, ttl))))
   \<and> (\<forall>e ttl tok. refresh_expiry cfg now t = Inr (e, ttl)
        \<and> lib_encode J
             (dict_merge [(''exp'', PDatetime e), (''sub'', PStr sub)]
                (AList.delete ''multi_login'' kwargs))
             (TOKEN_SECRET_KEY cfg) (TOKEN_ALGORITHM cfg) = Inr tok
        \<and> 0 \<le> ttl
      \<longrightarrow> create_refresh_token J cfg now sub t kwargs s
            = (Inr (tok, e),
               (if dict_get kwargs ''multi_login'' = PBool False
                then redis_delete_prefix
                       (TOKEN_REFRESH_REDIS_PREFIX cfg @ '':'' @ sub @ '':'') s
                else s)
               (TOKEN_REFRESH_REDIS_PREFIX cfg @ '':'' @ sub @ '':'' @ tok \<mapsto> (tok, ttl))))
   \<and> (dict_get kwargs ''multi_login'' \<noteq> PBool False \<longrightarrow>
      (\<forall>r s'. create_access_token J cfg now sub d kwargs s = (r, s') \<longrightarrow>
         (case r of
            Inl x \<Rightarrow> s' = s
          | Inr (tok, e) \<Rightarrow>
              \<exists>ttl. s' = s(TOKEN_REDIS_PREFIX cfg @ '':'' @ sub @ '':'' @ tok \<mapsto> (tok, ttl))))
      \<and> (\<forall>r s'. create_refresh_token J cfg now sub t kwargs s = (r, s') \<longrightarrow>
         (case r of
            Inl x \<Rightarrow> s' = s
          | Inr (tok, e) \<Rightarrow>
              \<exists>ttl. s' =
                s(TOKEN_REFRESH_REDIS_PREFIX cfg @ '':'' @ sub @ '':'' @ tok \<mapsto> (tok, ttl)))))
   \<and> (dict_get kwargs ''multi_login'' = PBool False \<longrightarrow>
      (\<forall>tok e s'. create_access_token J cfg now sub d kwargs s = (Inr (tok, e), s') \<longrightarrow>
         (\<exists>ttl. s' =
            (redis_delete_prefix (TOKEN_REDIS_PREFIX cfg @ '':'' @ sub @ '':'') s)
            (TOKEN_REDIS_PREFIX cfg @ '':'' @ sub @ '':'' @ tok \<mapsto> (tok, ttl))))
      \<and> (\<forall>tok e s'. create_refresh_token J cfg now sub t kwargs s = (Inr (tok, e), s') \<longrightarrow>
         (\<exists>ttl. s' =
            (redis_delete_prefix (TOKEN_REFRESH_REDIS_PREFIX cfg @ '':'' @ sub @ '':'') s)
            (TOKEN_REFRESH_REDIS_PREFIX cfg @ '':'' @ sub @ '':'' @ tok \<mapsto> (tok, ttl)))))"
proof (intro conjI allI impI)
  fix e ttl tok
  assume "access_expiry cfg now d = Inr (e, ttl)
        \<and> lib_encode J
             (dict_merge [(''exp'', PDatetime e), (''sub'', PStr sub)]
                (AList.delete ''multi_login'' kwargs))
             (TOKEN_SECRET_KEY cfg) (TOKEN_ALGORITHM cfg) = Inr tok
        \<and> 0 \<le> ttl"
  then show "create_access_token J cfg now sub d kwargs s
            = (Inr (tok, e),
               (if dict_get kwargs ''multi_login'' = PBool False
                then redis_delete_prefix (TOKEN_REDIS_PREFIX cfg @ '':'' @ sub @ '':'') s
                else s)
               (TOKEN_REDIS_PREFIX cfg @ '':'' @ sub @ '':'' @ tok \<mapsto> (tok, ttl)))"
    by (simp add: create_access_token_def redis_setex_def Let_def)
next
  fix e ttl tok
  assume "refresh_expiry cfg now t = Inr (e, ttl)
        \<and> lib_encode J
             (dict_merge [(''exp'', PDatetime e), (''sub'', PStr sub)]
                (AList.delete ''multi_login'' kwargs))
             (TOKEN_SECRET_KEY cfg) (TOKEN_ALGORITHM cfg) = Inr tok
        \<and> 0 \<le> ttl"
  then show "create_refresh_token J cfg now sub t kwargs s
            = (Inr (tok, e),
               (if dict_get kwargs ''multi_login'' = PBool False
                then redis_delete_prefix
                       (TOKEN_REFRESH_REDIS_PREFIX cfg @ '':'' @ sub @ '':'') s
                else s)
               (TOKEN_REFRESH_REDIS_PREFIX cfg @ '':'' @ sub @ '':'' @ tok \<mapsto> (tok, ttl)))"
    by (simp add: create_refresh_token_def redis_setex_def Let_def)
qed (use multi_login_frame[of kwargs J cfg now sub d s t] in blast)+

theorem prefix_delete_iff_multi_login_False_witness:
  "create_access_token J0 cfg0 0 ''42'' None
        [(''role_ids'', roles12), (''multi_login'', PBool True)] store0
      = (Inr (''tokD'', 3600000000), store0(''fba_token:42:tokD'' \<mapsto> (''tokD'', 3600)))
   \<and> (store0(''fba_token:42:tokD'' \<mapsto> (''tokD'', 3600))) ''fba_token:42:old''
        = Some (''old'', 100)
   \<and> create_access_token J0 cfg0 0 ''42'' None
        [(''role_ids'', roles12), (''multi_login'', PBool False)] store0
      = (Inr (''tokD'', 3600000000),
         (redis_delete_prefix ''fba_token:42:'' store0)(''fba_token:42:tokD'' \<mapsto> (''tokD'', 3600)))
   \<and> ((redis_delete_prefix ''fba_token:42:'' store0)
         (''fba_token:42:tokD'' \<mapsto> (''tokD'', 3600))) ''fba_token:42:old'' = None
   \<and> create_refresh_token J0 cfg0 50000000 ''7'' (Some 100000000)
        [(''multi_login'', PBool True)] store0
      = (Inr (''tokR'', 604900000000),
         store0(''fba_refresh_token:7:tokR'' \<mapsto> (''tokR'', 604850)))
   \<and> (store0(''fba_refresh_token:7:tokR'' \<mapsto> (''tokR'', 604850))) ''fba_refresh_token:7:old''
        = Some (''old'', 100)
   \<and> create_refresh_token J0 cfg0 50000000 ''7'' (Some 100000000)
        [(''multi_login'', PBool False)] store0
      = (Inr (''tokR'', 604900000000),
         (redis_delete_prefix ''fba_refresh_token:7:'' store0)
         (''fba_refresh_token:7:tokR'' \<mapsto> (''tokR'', 604850)))
   \<and> ((redis_delete_prefix ''fba_refresh_token:7:'' store0)
         (''fba_refresh_token:7:tokR'' \<mapsto> (''tokR'', 604850))) ''fba_refresh_token:7:old''
        = None
   \<and> ((redis_delete_prefix ''fba_refresh_token:7:'' store0)
         (''fba_refresh_token:7:tokR'' \<mapsto> (''tokR'', 604850))) ''fba_token:42:old''
        = Some (''old'', 100)"
proof -
  let ?kT = "[(''role_ids'', roles12), (''multi_login'', PBool True)]"
  let ?kF = "[(''role_ids'', roles12), (''multi_login'', PBool False)]"
  have ae: "access_expiry cfg0 0 None = Inr (3600000000, 3600)"
    by (simp add: expiry_defs cfg0_def)
  have re: "refresh_expiry cfg0 50000000 (Some 100000000) = Inr (604900000000, 604850)"
    by (simp add: expiry_defs cfg0_def int_total_seconds_604850)
  have encT: "lib_encode J0
       (dict_merge [(''exp'', PDatetime 3600000000), (''sub'', PStr ''42'')]
          (AList.delete ''multi_login'' ?kT))
       (TOKEN_SECRET_KEY cfg0) (TOKEN_ALGORITHM cfg0) = Inr ''tokD''"
    by (simp add: dict_merge_def run_defs AList.delete_eq)
  have encF: "lib_encode J0
       (dict_merge [(''exp'', PDatetime 3600000000), (''sub'', PStr ''42'')]
          (AList.delete ''multi_login'' ?kF))
       (TOKEN_SECRET_KEY cfg0) (TOKEN_ALGORITHM cfg0) = Inr ''tokD''"
    by (simp add: dict_merge_def run_defs AList.delete_eq)
  have rencT: "lib_encode J0
       (dict_merge [(''exp'', PDatetime 604900000000), (''sub'', PStr ''7'')]
          (AList.delete ''multi_login'' [(''multi_login'', PBool True)]))
       (TOKEN_SECRET_KEY cfg0) (TOKEN_ALGORITHM cfg0) = Inr ''tokR''"
    by (simp add: dict_merge_def run_defs AList.delete_eq)
  have rencF: "lib_encode J0
       (dict_merge [(''exp'', PDatetime 604900000000), (''sub'', PStr ''7'')]
          (AList.delete ''multi_login'' [(''multi_login'', PBool False)]))
       (TOKEN_SECRET_KEY cfg0) (TOKEN_ALGORITHM cfg0) = Inr ''tokR''"
    by (simp add: dict_merge_def run_defs AList.delete_eq)
  note wT = prefix_delete_iff_multi_login_False[where kwargs = ?kT and J = J0 and cfg = cfg0
      and now = 0 and sub = "''42''" and d = None and s = store0]
  note wF = prefix_delete_iff_multi_login_False[where kwargs = ?kF and J = J0 and cfg = cfg0
      and now = 0 and sub = "''42''" and d = None and s = store0]
  note rT = prefix_delete_iff_multi_login_False[where kwargs = "[(''multi_login'', PBool True)]"
      and J = J0 and cfg = cfg0 and now = 50000000 and sub = "''7''"
      and t = "Some 100000000" and s = store0]
  note rF = prefix_delete_iff_multi_login_False[where kwargs = "[(''multi_login'', PBool False)]"
      and J = J0 and cfg = cfg0 and now = 50000000 and sub = "''7''"
      and t = "Some 100000000" and s = store0]
  from wT ae encT
  have runT: "create_access_token J0 cfg0 0 ''42'' None ?kT store0
      = (Inr (''tokD'', 3600000000), store0(''fba_token:42:tokD'' \<mapsto> (''tokD'', 3600)))"
    by (simp add: dict_get_def cfg0_def)
  from wF ae encF
  have runF: "create_access_token J0 cfg0 0 ''42'' None ?kF store0
      = (Inr (''tokD'', 3600000000),
         (redis_delete_prefix ''fba_token:42:'' store0)(''fba_token:42:tokD'' \<mapsto> (''tokD'', 3600)))"
    by (simp add: dict_get_def cfg0_def)
  from rT re rencT
  have rrunT: "create_refresh_token J0 cfg0 50000000 ''7'' (Some 100000000)
        [(''multi_login'', PBool True)] store0
      = (Inr (''tokR'', 604900000000),
         store0(''fba_refresh_token:7:tokR'' \<mapsto> (''tokR'', 604850)))"
    by (simp add: dict_get_def cfg0_def)
  from rF re rencF
  have rrunF: "create_refresh_token J0 cfg0 50000000 ''7'' (Some 100000000)
        [(''multi_login'', PBool False)] store0
      = (Inr (''tokR'', 604900000000),
         (redis_delete_prefix ''fba_refresh_token:7:'' store0)
         (''fba_refresh_token:7:tokR'' \<mapsto> (''tokR'', 604850)))"
    by (simp add: dict_get_def cfg0_def)
  have oT: "(store0(''fba_token:42:tokD'' \<mapsto> (''tokD'', 3600))) ''fba_token:42:old''
        = Some (''old'', 100)"
    by (simp add: store0_def)
  have oF: "((redis_delete_prefix ''fba_token:42:'' store0)
         (''fba_token:42:tokD'' \<mapsto> (''tokD'', 3600))) ''fba_token:42:old'' = None"
    by (simp add: store0_def redis_delete_prefix_def)
  have roT: "(store0(''fba_refresh_token:7:tokR'' \<mapsto> (''tokR'', 604850)))
        ''fba_refresh_token:7:old'' = Some (''old'', 100)"
    by (simp add: store0_def)
  have roF: "((redis_delete_prefix ''fba_refresh_token:7:'' store0)
         (''fba_refresh_token:7:tokR'' \<mapsto> (''tokR'', 604850))) ''fba_refresh_token:7:old''
        = None"
    by (simp add: store0_def redis_delete_prefix_def)
  have roF': "((redis_delete_prefix ''fba_refresh_token:7:'' store0)
         (''fba_refresh_token:7:tokR'' \<mapsto> (''tokR'', 604850))) ''fba_token:42:old''
        = Some (''old'', 100)"
    by (simp add: store0_def redis_delete_prefix_def)
  from runT oT runF oF rrunT roT rrunF roF roF' show ?thesis by blast
qed

section \<open>Two single-session logins in a row\<close>

lemma create_access_token_returns:
  "datetime_plus_seconds now (TOKEN_EXPIRE_SECONDS cfg) = Inr e
   \<Longrightarrow> lib_encode J
         (dict_merge [(''exp'', PDatetime e), (''sub'', PStr sub)]
            (AList.delete ''multi_login'' kwargs))
         (TOKEN_SECRET_KEY cfg) (TOKEN_ALGORITHM cfg) = Inr tok
   \<Longrightarrow> 0 \<le> TOKEN_EXPIRE_SECONDS cfg
   \<Longrightarrow> fst (create_access_token J cfg now sub None kwargs s) = Inr (tok, e)"
  by (simp add: create_access_token_def access_expiry_def redis_setex_def Let_def)

lemma live_after_prefix_delete:
  "{k. prefix p k \<and> ((redis_delete_prefix p s)(p @ t \<mapsto> v)) k \<noteq> None} = {p @ t}"
  by (auto simp: redis_delete_prefix_def)

text \<open>
  Claim C4. Issue an access token for a subject in single-session mode, then issue again
  for the same subject in single-session mode, one call after the other: of the keys
  under the subject's access prefix exactly the key of the second token is in the index
  afterwards, holding that token, because the second call deletes the prefix first and
  registers its entry after.
\<close>

theorem single_session_sequential:
  assumes "dict_get kw1 ''multi_login'' = PBool False"
      and "create_access_token J cfg now1 sub d1 kw1 s0 = (r1, s1)"
      and "dict_get kw2 ''multi_login'' = PBool False"
      and "create_access_token J cfg now2 sub d2 kw2 s1 = (Inr (tok2, e2), s2)"
  shows "{k. prefix (TOKEN_REDIS_PREFIX cfg @ '':'' @ sub @ '':'') k \<and> s2 k \<noteq> None}
           = {TOKEN_REDIS_PREFIX cfg @ '':'' @ sub @ '':'' @ tok2}
         \<and> redis_get (TOKEN_REDIS_PREFIX cfg @ '':'' @ sub @ '':'' @ tok2) s2 = Some tok2
         \<and> (\<exists>ttl. s2 =
               (redis_delete_prefix (TOKEN_REDIS_PREFIX cfg @ '':'' @ sub @ '':'') s1)
               (TOKEN_REDIS_PREFIX cfg @ '':'' @ sub @ '':'' @ tok2 \<mapsto> (tok2, ttl)))"
proof -
  from create_access_token_store[OF assms(4)] assms(3)
  obtain ttl where s2: "s2 =
      (redis_delete_prefix (TOKEN_REDIS_PREFIX cfg @ '':'' @ sub @ '':'') s1)
      (TOKEN_REDIS_PREFIX cfg @ '':'' @ sub @ '':'' @ tok2 \<mapsto> (tok2, ttl))"
    by auto
  have "{k. prefix (TOKEN_REDIS_PREFIX cfg @ '':'' @ sub @ '':'') k \<and> s2 k \<noteq> None}
           = {(TOKEN_REDIS_PREFIX cfg @ '':'' @ sub @ '':'') @ tok2}"
    unfolding s2
    using live_after_prefix_delete[of "TOKEN_REDIS_PREFIX cfg @ '':'' @ sub @ '':''" s1 tok2
        "(tok2, ttl)"]
    by simp
  moreover have "redis_get (TOKEN_REDIS_PREFIX cfg @ '':'' @ sub @ '':'' @ tok2) s2 = Some tok2"
    by (simp add: s2 redis_get_def)
  ultimately show ?thesis using s2 by auto
qed

theorem single_session_sequential_witness:
  "dict_get [(''role_ids'', roles12), (''multi_login'', PBool False)] ''multi_login'' = PBool False
   \<and> create_access_token J0 cfg0 0 ''42'' None
        [(''role_ids'', roles12), (''multi_login'', PBool False)] store0
      = (Inr (''tokD'', 3600000000), store1)
   \<and> create_access_token J0 cfg0 10000000 ''42'' None
        [(''role_ids'', roles12), (''multi_login'', PBool False)] store1
      = (Inr (''tokE'', 3610000000), store2)
   \<and> {k. prefix (TOKEN_REDIS_PREFIX cfg0 @ '':'' @ ''42'' @ '':'') k \<and> store2 k \<noteq> None}
        = {TOKEN_REDIS_PREFIX cfg0 @ '':'' @ ''42'' @ '':'' @ ''tokE''}
   \<and> redis_get (TOKEN_REDIS_PREFIX cfg0 @ '':'' @ ''42'' @ '':'' @ ''tokE'') store2 = Some ''tokE''
   \<and> store2 ''fba_token:42:tokD'' = None
   \<and> store2 ''fba_refresh_token:7:old'' = Some (''old'', 100)"
proof -
  have m: "dict_get [(''role_ids'', roles12), (''multi_login'', PBool False)] ''multi_login''
      = PBool False"
    by (simp add: dict_get_def)
  have run1: "create_access_token J0 cfg0 0 ''42'' None
        [(''role_ids'', roles12), (''multi_login'', PBool False)] store0
      = (Inr (''tokD'', 3600000000), store1)"
    by (simp add: create_access_token_def redis_setex_def dict_merge_def expiry_defs
        Let_def run_defs AList.delete_eq store1_def)
  have run2: "create_access_token J0 cfg0 10000000 ''42'' None
        [(''role_ids'', roles12), (''multi_login'', PBool False)] store1
      = (Inr (''tokE'', 3610000000), store2)"
    by (simp add: create_access_token_def redis_setex_def dict_merge_def expiry_defs
        Let_def run_defs AList.delete_eq store2_def)
  note w = single_session_sequential[OF m run1 m run2]
  have a: "store2 ''fba_token:42:tokD'' = None"
    by (simp add: store2_def store1_def redis_delete_prefix_def)
  have b: "store2 ''fba_refresh_token:7:old'' = Some (''old'', 100)"
    by (simp add: store2_def store1_def store0_def redis_delete_prefix_def)
  from m run1 run2 w a b show ?thesis by blast
qed

section \<open>Decoding an issued access token\<close>

text \<open>
  What \<^verbatim>\<open>int\<close> makes of a subject: a separator such as 0x1C is no white space to it, a
  no-break space is, and underscores only stand between digits.
\<close>

lemma py_int_white_space:
  "py_int (PStr [CHR 0x1C, CHR ''4'', CHR ''2'']) = Inl ValueError
   \<and> py_int (PStr [CHR 0xA0, CHR ''4'', CHR ''2'', CHR 0x85]) = Inr 42
   \<and> py_int (PStr ''4__2'') = Inl ValueError
   \<and> py_int (PStr '' +4_2 '') = Inr 42"
  by (simp add: int_defs Let_def)

lemma map_of_dict_merge:
  "distinct (map fst kw)
   \<Longrightarrow> map_of (dict_merge d kw) k = (case map_of kw k of None \<Rightarrow> map_of d k | Some v \<Rightarrow> Some v)"
proof (induction kw arbitrary: d)
  case Nil
  then show ?case by (simp add: dict_merge_def)
next
  case (Cons x kw)
  obtain a b where x: "x = (a, b)" by (cases x)
  from Cons.prems x have d: "distinct (map fst kw)" and a: "a \<notin> fst ` set kw" by auto
  have step: "dict_merge d (x # kw) = dict_merge (AList.update a b d) kw"
    by (simp add: dict_merge_def x)
  from a have none: "map_of kw a = None" by (simp add: map_of_eq_None_iff)
  show ?case
    unfolding step Cons.IH[OF d] using x none
    by (auto simp: update_conv' split: option.splits)
qed

lemma map_of_wire: "map_of (wire c) k = map_option (wire_val k) (map_of c k)"
  by (induction c) (auto simp: wire_def)

lemma find_unique_token:
  "distinct (map snd tbl) \<Longrightarrow> (x, t) \<in> set tbl \<Longrightarrow> P (x, t)
   \<Longrightarrow> (\<And>y. P y \<Longrightarrow> snd y = t) \<Longrightarrow> find P tbl = Some (x, t)"
proof (induction tbl)
  case Nil
  then show ?case by simp
next
  case (Cons y tbl)
  show ?case
  proof (cases "y = (x, t)")
    case True
    with Cons.prems show ?thesis by simp
  next
    case False
    with Cons.prems have mem: "(x, t) \<in> set tbl" by simp
    from mem have "t \<in> snd ` set tbl" by force
    with Cons.prems(1) have "snd y \<noteq> t" by auto
    with Cons.prems(4) have "\<not> P y" by blast
    moreover from Cons.prems(1) have "distinct (map snd tbl)" by simp
    ultimately show ?thesis using Cons.IH[OF _ mem Cons.prems(3) Cons.prems(4)] by simp
  qed
qed

lemma table_jose_roundtrip:
  assumes "distinct (map snd tbl)"
  shows "jose_roundtrip (table_jose tbl)"
  unfolding jose_roundtrip_def
proof (intro allI impI)
  fix claims key alg tok now
  assume h: "lib_encode (table_jose tbl) claims key alg = Inr tok \<and> plain_claims claims
          \<and> \<not> claims_expired (wire claims) now"
  then have "map_of tbl (wire claims, key, alg) = Some tok"
    by (auto simp: table_jose_def split: option.splits)
  then have mem: "((wire claims, key, alg), tok) \<in> set tbl" by (rule map_of_SomeD)
  have "find (\<lambda>((c, k, a), t). t = tok \<and> k = key \<and> a \<in> set [alg]) tbl
          = Some ((wire claims, key, alg), tok)"
    by (rule find_unique_token[OF assms mem]) auto
  with h show "lib_decode (table_jose tbl) tok key [alg] now = Inr (wire claims)"
    by (simp add: table_jose_def)
qed

lemma J0_roundtrip: "jose_roundtrip J0"
  unfolding J0_def by (rule table_jose_roundtrip) (simp add: tbl0_def)

lemma create_access_token_encoded:
  "create_access_token J cfg now sub d kwargs s = (Inr (tok, e), s')
   \<Longrightarrow> lib_encode J
         (dict_merge [(''exp'', PDatetime e), (''sub'', PStr sub)]
            (AList.delete ''multi_login'' kwargs))
         (TOKEN_SECRET_KEY cfg) (TOKEN_ALGORITHM cfg) = Inr tok"
  by (auto simp: create_access_token_def redis_setex_def Let_def
      split: sum.splits if_splits option.splits prod.splits)


text \<open>
  Claim C1, as amended. \<open>jwt_decode\<close> does not return the claims that were encoded: it
  returns the subject id as an integer and the list of roles. For a library that round
  trips, a subject that converts to a non-zero integer, a \<^verbatim>\<open>role_ids\<close> keyword whose list
  is not empty and keywords that are none of the registered claims, decoding the token
  of \<open>create_access_token\<close> before its expiry returns that integer and that list.
\<close>

theorem jwt_decode_of_issued_token:
  assumes rt: "jose_roundtrip J"
      and run: "create_access_token J cfg now sub d kwargs s = (Inr (tok, e), s')"
      and dist: "distinct (map fst kwargs)"
      and free: "list_all (\<lambda>k. map_of kwargs k = None)
                   [''exp'', ''sub'', ''nbf'', ''iat'', ''iss'', ''aud'', ''jti'', ''at_hash'']"
      and uid: "py_int (PStr sub) = Inr uid" "uid \<noteq> 0"
      and rs: "py_list (dict_get kwargs ''role_ids'') = Inr rs" "rs \<noteq> []"
      and early: "now' div 1000000 \<le> e div 1000000"
  shows "jwt_decode J cfg now' tok = Inr (uid, rs)"
proof -
  define kw where "kw = AList.delete ''multi_login'' kwargs"
  define c where "c = dict_merge [(''exp'', PDatetime e), (''sub'', PStr sub)] kw"
  have dkw: "distinct (map fst kw)"
    unfolding kw_def using dist by (rule distinct_delete)
  have kwk: "map_of kw k = (if k = ''multi_login'' then None else map_of kwargs k)" for k
    by (simp add: kw_def delete_conv')
  have ck: "map_of c k
      = (case map_of kw k of
           None \<Rightarrow> map_of [(''exp'', PDatetime e), (''sub'', PStr sub)] k
         | Some v \<Rightarrow> Some v)" for k
    unfolding c_def by (rule map_of_dict_merge[OF dkw])
  have c_exp: "map_of c ''exp'' = Some (PDatetime e)"
    using free by (simp add: ck kwk)
  have c_sub: "map_of c ''sub'' = Some (PStr sub)"
    using free by (simp add: ck kwk)
  have c_roles: "map_of c ''role_ids'' = map_of kwargs ''role_ids''"
    by (simp add: ck kwk split: option.splits)
  have plain: "plain_claims c"
    using free by (simp add: plain_claims_def ck kwk c_exp c_sub)
  have live: "\<not> claims_expired (wire c) now'"
    using early by (simp add: claims_expired_def map_of_wire c_exp wire_val_def)
  have enc: "lib_encode J c (TOKEN_SECRET_KEY cfg) (TOKEN_ALGORITHM cfg) = Inr tok"
    unfolding c_def kw_def by (rule create_access_token_encoded[OF run])
  from rt enc plain live
  have dec: "lib_decode J tok (TOKEN_SECRET_KEY cfg) [TOKEN_ALGORITHM cfg] now' = Inr (wire c)"
    unfolding jose_roundtrip_def by blast
  have w_sub: "dict_get (wire c) ''sub'' = PStr sub"
    by (simp add: dict_get_def map_of_wire c_sub wire_val_def)
  have w_roles: "dict_get (wire c) ''role_ids'' = dict_get kwargs ''role_ids''"
    by (simp add: dict_get_def map_of_wire c_roles wire_val_def map_option_case
        split: option.splits)
  show ?thesis
    using uid rs
    by (simp add: jwt_decode_collapse jwt_decode_body_def dec w_sub w_roles)
qed

theorem jwt_decode_of_issued_token_witness:
  "jose_roundtrip J0
   \<and> create_access_token J0 cfg0 0 ''42'' None [(''role_ids'', roles12)] store0
      = (Inr (''tokD'', 3600000000), store0(''fba_token:42:tokD'' \<mapsto> (''tokD'', 3600)))
   \<and> py_int (PStr ''42'') = Inr 42
   \<and> py_list (dict_get [(''role_ids'', roles12)] ''role_ids'') = Inr [PInt 1, PInt 2]
   \<and> jwt_decode J0 cfg0 1800000000 ''tokD'' = Inr (42, [PInt 1, PInt 2])"
proof -
  have run: "create_access_token J0 cfg0 0 ''42'' None [(''role_ids'', roles12)] store0
      = (Inr (''tokD'', 3600000000), store0(''fba_token:42:tokD'' \<mapsto> (''tokD'', 3600)))"
    by (simp add: create_access_token_def redis_setex_def dict_merge_def expiry_defs
        Let_def run_defs AList.delete_eq)
  have uid: "py_int (PStr ''42'') = Inr 42" "(42::int) \<noteq> 0"
    by (simp_all add: int_defs)
  have rs: "py_list (dict_get [(''role_ids'', roles12)] ''role_ids'') = Inr [PInt 1, PInt 2]"
      "[PInt 1, PInt 2] \<noteq> []"
    by (simp_all add: dict_get_def roles12_def)
  have "jwt_decode J0 cfg0 1800000000 ''tokD'' = Inr (42, [PInt 1, PInt 2])"
    by (rule jwt_decode_of_issued_token[OF J0_roundtrip run _ _ uid rs]) simp_all
  with J0_roundtrip run uid rs show ?thesis by blast
qed

text \<open>
  The claim as it stands fails: a token issued for subject 42 without roles does not
  decode at all, and two tokens issued with different claims (the names differ) decode
  to the same result, which holds neither the expiry nor the name.
\<close>

theorem jwt_decode_roundtrip_counterexample:
  "jose_roundtrip J0
   \<and> fst (create_access_token J0 cfg0 0 ''42'' None [] store0) = Inr (''tokA'', 3600000000)
   \<and> jwt_decode J0 cfg0 0 ''tokA'' = Inl (TokenError DefaultMsg)
   \<and> fst (create_access_token J0 cfg0 0 ''42'' None
            [(''role_ids'', roles12), (''name'', PStr ''ann'')] store0)
       = Inr (''tokB'', 3600000000)
   \<and> fst (create_access_token J0 cfg0 0 ''42'' None
            [(''role_ids'', roles12), (''name'', PStr ''bob'')] store0)
       = Inr (''tokC'', 3600000000)
   \<and> jwt_decode J0 cfg0 0 ''tokB'' = Inr (42, [PInt 1, PInt 2])
   \<and> jwt_decode J0 cfg0 0 ''tokC'' = Inr (42, [PInt 1, PInt 2])"
proof (intro conjI)
  show "jose_roundtrip J0" by (rule J0_roundtrip)
  show "fst (create_access_token J0 cfg0 0 ''42'' None [] store0) = Inr (''tokA'', 3600000000)"
    by (simp add: create_access_token_def redis_setex_def dict_merge_def expiry_defs
        Let_def run_defs AList.delete_eq)
  show "jwt_decode J0 cfg0 0 ''tokA'' = Inl (TokenError DefaultMsg)"
    by (simp add: jwt_decode_collapse jwt_decode_body_def run_defs int_defs)
  show "fst (create_access_token J0 cfg0 0 ''42'' None
            [(''role_ids'', roles12), (''name'', PStr ''ann'')] store0)
       = Inr (''tokB'', 3600000000)"
    by (simp add: create_access_token_def redis_setex_def dict_merge_def expiry_defs
        Let_def run_defs AList.delete_eq)
  show "fst (create_access_token J0 cfg0 0 ''42'' None
            [(''role_ids'', roles12), (''name'', PStr ''bob'')] store0)
       = Inr (''tokC'', 3600000000)"
    by (simp add: create_access_token_def redis_setex_def dict_merge_def expiry_defs
        Let_def run_defs AList.delete_eq)
  show "jwt_decode J0 cfg0 0 ''tokB'' = Inr (42, [PInt 1, PInt 2])"
    by (simp add: jwt_decode_collapse jwt_decode_body_def run_defs int_defs)
  show "jwt_decode J0 cfg0 0 ''tokC'' = Inr (42, [PInt 1, PInt 2])"
    by (simp add: jwt_decode_collapse jwt_decode_body_def run_defs int_defs)
qed

section \<open>Refreshing\<close>

lemma split_at_colon:
  "colon_free a \<Longrightarrow> colon_free b \<Longrightarrow> a @ CHR '':'' # x = b @ CHR '':'' # y \<Longrightarrow> a = b \<and> x = y"
proof (induction a arbitrary: b)
  case Nil
  then show ?case by (cases b) (auto simp: colon_free_def)
next
  case (Cons c a)
  then show ?case by (cases b) (auto simp: colon_free_def)
qed

lemma prefix_at_colon:
  assumes "colon_free a" "colon_free b" "prefix (a @ CHR '':'' # x) (b @ CHR '':'' # y)"
  shows "a = b \<and> prefix x y"
proof -
  from assms(3) obtain z where "b @ CHR '':'' # y = (a @ CHR '':'' # x) @ z"
    by (auto simp: prefix_def)
  then have "b @ CHR '':'' # y = a @ CHR '':'' # (x @ z)" by simp
  from split_at_colon[OF assms(2) assms(1) this] show ?thesis by auto
qed

lemma access_key_not_refresh_key:
  assumes "colon_free (TOKEN_REDIS_PREFIX cfg)" "colon_free (TOKEN_REFRESH_REDIS_PREFIX cfg)"
      and "TOKEN_REDIS_PREFIX cfg \<noteq> TOKEN_REFRESH_REDIS_PREFIX cfg"
  shows "TOKEN_REDIS_PREFIX cfg @ '':'' @ u @ '':'' @ t
           \<noteq> TOKEN_REFRESH_REDIS_PREFIX cfg @ '':'' @ u' @ '':'' @ t'"
    and "\<not> prefix (TOKEN_REDIS_PREFIX cfg @ '':'' @ u @ '':'')
             (TOKEN_REFRESH_REDIS_PREFIX cfg @ '':'' @ u' @ '':'' @ t')"
proof -
  show "TOKEN_REDIS_PREFIX cfg @ '':'' @ u @ '':'' @ t
           \<noteq> TOKEN_REFRESH_REDIS_PREFIX cfg @ '':'' @ u' @ '':'' @ t'"
    using split_at_colon[OF assms(1) assms(2)] assms(3) by auto
  show "\<not> prefix (TOKEN_REDIS_PREFIX cfg @ '':'' @ u @ '':'')
             (TOKEN_REFRESH_REDIS_PREFIX cfg @ '':'' @ u' @ '':'' @ t')"
    using prefix_at_colon[OF assms(1) assms(2)] assms(3) by auto
qed

lemma create_access_token_frame:
  assumes "create_access_token J cfg now sub d kwargs s = (r, s')"
      and "\<And>t. k \<noteq> TOKEN_REDIS_PREFIX cfg @ '':'' @ sub @ '':'' @ t"
      and "\<not> prefix (TOKEN_REDIS_PREFIX cfg @ '':'' @ sub @ '':'') k"
  shows "s' k = s k"
proof (cases r)
  case (Inl x)
  with assms(1) create_access_token_store_failed[of J cfg now sub d kwargs s x s'] assms(3)
  show ?thesis by (auto simp: redis_delete_prefix_def)
next
  case (Inr p)
  obtain tok e where "p = (tok, e)" by (cases p)
  with Inr assms(1) create_access_token_store[of J cfg now sub d kwargs s tok e s']
  obtain ttl where "s' =
         (if dict_get kwargs ''multi_login'' = PBool False
          then redis_delete_prefix (TOKEN_REDIS_PREFIX cfg @ '':'' @ sub @ '':'') s
          else s)
         (TOKEN_REDIS_PREFIX cfg @ '':'' @ sub @ '':'' @ tok \<mapsto> (tok, ttl))"
    by auto
  with assms(2)[of tok] assms(3) show ?thesis by (auto simp: redis_delete_prefix_def)
qed

lemma create_new_token_unfold:
  "create_new_token J cfg now sub rt kwargs s =
     (if redis_get (TOKEN_REFRESH_REDIS_PREFIX cfg @ '':'' @ sub @ '':'' @ rt) s \<noteq> Some rt
         \<or> rt = []
      then (Inl (TokenError RefreshTokenExpiredMsg), s)
      else (case bind_expires_delta kwargs of
              Inl e \<Rightarrow> (Inl e, s)
            | Inr (d, extra) \<Rightarrow> create_access_token J cfg now sub d extra s))"
  by (auto simp: create_new_token_def Let_def)

lemma access_expiry_raises: "access_expiry cfg now d = Inl x \<Longrightarrow> x = OverflowError"
  by (auto simp: access_expiry_def datetime_plus_seconds_def timedelta_seconds_def
      datetime_add_def split: option.splits if_splits sum.splits)

lemma create_access_token_no_TokenError:
  assumes "\<And>c k a m. lib_encode J c k a \<noteq> Inl (TokenError m)"
  shows "fst (create_access_token J cfg now sub d kwargs s) \<noteq> Inl (TokenError m)"
proof (cases "access_expiry cfg now d")
  case (Inl x)
  with access_expiry_raises[OF Inl] show ?thesis
    by (simp add: create_access_token_def)
next
  case (Inr p)
  with assms show ?thesis
    by (auto simp: create_access_token_def redis_setex_def Let_def
        split: sum.splits if_splits option.splits prod.splits)
qed

lemma bind_expires_delta_no_TokenError: "bind_expires_delta kwargs \<noteq> Inl (TokenError m)"
  by (auto simp: bind_expires_delta_def split: option.splits pyval.splits)

lemma bind_expires_delta_absent:
  "map_of kwargs ''expires_delta'' = None \<Longrightarrow> bind_expires_delta kwargs = Inr (None, kwargs)"
  by (simp add: bind_expires_delta_def)


lemma J0_encode_foreign: "\<forall>c k a m. lib_encode J0 c k a \<noteq> Inl (TokenError m)"
  by (simp add: J0_def table_jose_def split: option.splits)

lemma nonempty_values_empty: "nonempty_values Map.empty"
  by (simp add: nonempty_values_def)

lemma nonempty_values_delete_prefix:
  "nonempty_values s \<Longrightarrow> nonempty_values (redis_delete_prefix p s)"
  by (auto simp: nonempty_values_def redis_delete_prefix_def split: if_splits)

lemma nonempty_values_create_access_token:
  assumes "nonempty_values s" "\<forall>c k a. lib_encode J c k a \<noteq> Inr []"
  shows "nonempty_values (snd (create_access_token J cfg now sub d kwargs s))"
proof -
  obtain r s' where run: "create_access_token J cfg now sub d kwargs s = (r, s')"
    by (cases "create_access_token J cfg now sub d kwargs s")
  have "nonempty_values s'"
  proof (cases r)
    case (Inl x)
    with run create_access_token_store_failed[of J cfg now sub d kwargs s x s'] assms(1)
    show ?thesis by (auto intro: nonempty_values_delete_prefix)
  next
    case (Inr q)
    obtain tok e where q: "q = (tok, e)" by (cases q)
    with Inr run create_access_token_encoded[of J cfg now sub d kwargs s tok e s'] assms(2)
    have tok: "tok \<noteq> []" by auto
    from q Inr run create_access_token_store[of J cfg now sub d kwargs s tok e s']
    obtain ttl where "s' =
         (if dict_get kwargs ''multi_login'' = PBool False
          then redis_delete_prefix (TOKEN_REDIS_PREFIX cfg @ '':'' @ sub @ '':'') s
          else s)
         (TOKEN_REDIS_PREFIX cfg @ '':'' @ sub @ '':'' @ tok \<mapsto> (tok, ttl))"
      by auto
    with tok assms(1) nonempty_values_delete_prefix[OF assms(1)] show ?thesis
      by (auto simp: nonempty_values_def split: if_splits)
  qed
  with run show ?thesis by simp
qed

lemma nonempty_values_create_refresh_token:
  assumes "nonempty_values s" "\<forall>c k a. lib_encode J c k a \<noteq> Inr []"
  shows "nonempty_values (snd (create_refresh_token J cfg now sub t kwargs s))"
proof -
  obtain r s' where run: "create_refresh_token J cfg now sub t kwargs s = (r, s')"
    by (cases "create_refresh_token J cfg now sub t kwargs s")
  have "nonempty_values s'"
  proof (cases r)
    case (Inl x)
    with run create_refresh_token_store_failed[of J cfg now sub t kwargs s x s'] assms(1)
    show ?thesis by (auto intro: nonempty_values_delete_prefix)
  next
    case (Inr q)
    obtain tok e where q: "q = (tok, e)" by (cases q)
    with Inr run assms(2) have tok: "tok \<noteq> []"
      by (auto simp: create_refresh_token_def redis_setex_def Let_def
          split: sum.splits if_splits prod.splits)
    from q Inr run create_refresh_token_store[of J cfg now sub t kwargs s tok e s']
    obtain ttl where "s' =
         (if dict_get kwargs ''multi_login'' = PBool False
          then redis_delete_prefix (TOKEN_REFRESH_REDIS_PREFIX cfg @ '':'' @ sub @ '':'') s
          else s)
         (TOKEN_REFRESH_REDIS_PREFIX cfg @ '':'' @ sub @ '':'' @ tok \<mapsto> (tok, ttl))"
      by auto
    with tok assms(1) nonempty_values_delete_prefix[OF assms(1)] show ?thesis
      by (auto simp: nonempty_values_def split: if_splits)
  qed
  with run show ?thesis by simp
qed

lemma nonempty_values_create_new_token:
  assumes "nonempty_values s" "\<forall>c k a. lib_encode J c k a \<noteq> Inr []"
  shows "nonempty_values (snd (create_new_token J cfg now sub rt kwargs s))"
  using assms(1) nonempty_values_create_access_token[OF assms]
  by (auto simp: create_new_token_unfold split: sum.splits)

lemma J0_encode_nonempty: "\<forall>c k a. lib_encode J0 c k a \<noteq> Inr []"
proof (intro allI)
  fix c k a
  have "map_of tbl0 (wire c, k, a) \<noteq> Some []"
  proof
    assume "map_of tbl0 (wire c, k, a) = Some []"
    then have "((wire c, k, a), []) \<in> set tbl0" by (rule map_of_SomeD)
    then show False by (auto simp: tbl0_def)
  qed
  then show "lib_encode J0 c k a \<noteq> Inr []"
    by (auto simp: J0_def table_jose_def split: option.splits)
qed

text \<open>
  Claim C5. On an index whose values are not empty, as every index written by this
  module with the tokens of the library is (the \<open>nonempty_values\<close> lemmas above),
  \<open>create_new_token\<close> raises \<open>TokenError\<close> exactly when the entry of the refresh prefix
  for the subject and the presented token is absent or holds a value other than the
  presented token (the library raising no \<open>TokenError\<close> of its own). Otherwise it does
  what \<open>create_access_token\<close> does with the same subject and keywords, and a call that
  returns leaves the entry of the refresh token as it was, the two prefixes being
  different and free of colons.
\<close>

theorem create_new_token_refresh_check:
  assumes foreign: "\<forall>c k a m. lib_encode J c k a \<noteq> Inl (TokenError m)"
      and nonempty: "nonempty_values s"
  shows "((\<exists>m. fst (create_new_token J cfg now sub rt kwargs s) = Inl (TokenError m))
            = (s (TOKEN_REFRESH_REDIS_PREFIX cfg @ '':'' @ sub @ '':'' @ rt) = None
               \<or> (\<exists>v ttl. s (TOKEN_REFRESH_REDIS_PREFIX cfg @ '':'' @ sub @ '':'' @ rt)
                            = Some (v, ttl) \<and> v \<noteq> rt)))
         \<and> (\<forall>tok e s'. create_new_token J cfg now sub rt kwargs s = (Inr (tok, e), s')
              \<longrightarrow> (\<exists>d extra. bind_expires_delta kwargs = Inr (d, extra)
                      \<and> create_access_token J cfg now sub d extra s = (Inr (tok, e), s'))
                \<and> (colon_free (TOKEN_REDIS_PREFIX cfg)
                      \<and> colon_free (TOKEN_REFRESH_REDIS_PREFIX cfg)
                      \<and> TOKEN_REDIS_PREFIX cfg \<noteq> TOKEN_REFRESH_REDIS_PREFIX cfg
                    \<longrightarrow> s' (TOKEN_REFRESH_REDIS_PREFIX cfg @ '':'' @ sub @ '':'' @ rt)
                          = s (TOKEN_REFRESH_REDIS_PREFIX cfg @ '':'' @ sub @ '':'' @ rt)))
         \<and> (map_of kwargs ''expires_delta'' = None
              \<longrightarrow> bind_expires_delta kwargs = Inr (None, kwargs))"
proof (intro conjI allI impI)
  let ?K = "TOKEN_REFRESH_REDIS_PREFIX cfg @ '':'' @ sub @ '':'' @ rt"
  let ?bad = "redis_get ?K s \<noteq> Some rt \<or> rt = []"
  have bad_iff: "?bad = (s ?K = None \<or> (\<exists>v ttl. s ?K = Some (v, ttl) \<and> v \<noteq> rt))"
  proof (cases "s ?K")
    case None
    then show ?thesis by (simp add: redis_get_def)
  next
    case (Some p)
    obtain v ttl where p: "p = (v, ttl)" by (cases p)
    with Some nonempty have "v \<noteq> []" unfolding nonempty_values_def by blast
    with Some p show ?thesis by (auto simp: redis_get_def)
  qed
  have "(\<exists>m. fst (create_new_token J cfg now sub rt kwargs s) = Inl (TokenError m)) = ?bad"
  proof (cases ?bad)
    case True
    then show ?thesis by (simp add: create_new_token_unfold)
  next
    case False
    have "fst (create_new_token J cfg now sub rt kwargs s) \<noteq> Inl (TokenError m)" for m
    proof (cases "bind_expires_delta kwargs")
      case (Inl x)
      with False bind_expires_delta_no_TokenError[of kwargs m] show ?thesis
        by (auto simp: create_new_token_unfold)
    next
      case (Inr p)
      obtain d extra where "p = (d, extra)" by (cases p)
      with Inr False create_access_token_no_TokenError[of J cfg now sub d extra s m] foreign
      show ?thesis by (auto simp: create_new_token_unfold)
    qed
    with False show ?thesis by blast
  qed
  with bad_iff
  show "(\<exists>m. fst (create_new_token J cfg now sub rt kwargs s) = Inl (TokenError m))
            = (s ?K = None \<or> (\<exists>v ttl. s ?K = Some (v, ttl) \<and> v \<noteq> rt))"
    by simp
next
  fix tok e s'
  assume run: "create_new_token J cfg now sub rt kwargs s = (Inr (tok, e), s')"
  then show "\<exists>d extra. bind_expires_delta kwargs = Inr (d, extra)
                      \<and> create_access_token J cfg now sub d extra s = (Inr (tok, e), s')"
    by (auto simp: create_new_token_unfold split: if_splits sum.splits)
next
  fix tok e s'
  assume run: "create_new_token J cfg now sub rt kwargs s = (Inr (tok, e), s')"
     and ns: "colon_free (TOKEN_REDIS_PREFIX cfg)
                      \<and> colon_free (TOKEN_REFRESH_REDIS_PREFIX cfg)
                      \<and> TOKEN_REDIS_PREFIX cfg \<noteq> TOKEN_REFRESH_REDIS_PREFIX cfg"
  from run obtain d extra where
    acc: "create_access_token J cfg now sub d extra s = (Inr (tok, e), s')"
    by (auto simp: create_new_token_unfold split: if_splits sum.splits)
  from ns have a: "colon_free (TOKEN_REDIS_PREFIX cfg)"
    and b: "colon_free (TOKEN_REFRESH_REDIS_PREFIX cfg)"
    and c: "TOKEN_REDIS_PREFIX cfg \<noteq> TOKEN_REFRESH_REDIS_PREFIX cfg"
    by simp_all
  show "s' (TOKEN_REFRESH_REDIS_PREFIX cfg @ '':'' @ sub @ '':'' @ rt)
                  = s (TOKEN_REFRESH_REDIS_PREFIX cfg @ '':'' @ sub @ '':'' @ rt)"
  proof (rule create_access_token_frame[OF acc])
    fix t
    show "TOKEN_REFRESH_REDIS_PREFIX cfg @ '':'' @ sub @ '':'' @ rt
            \<noteq> TOKEN_REDIS_PREFIX cfg @ '':'' @ sub @ '':'' @ t"
      using access_key_not_refresh_key(1)[OF a b c, of sub t sub rt] by simp
  next
    show "\<not> prefix (TOKEN_REDIS_PREFIX cfg @ '':'' @ sub @ '':'')
             (TOKEN_REFRESH_REDIS_PREFIX cfg @ '':'' @ sub @ '':'' @ rt)"
      by (rule access_key_not_refresh_key(2)[OF a b c])
  qed
next
  assume "map_of kwargs ''expires_delta'' = None"
  then show "bind_expires_delta kwargs = Inr (None, kwargs)"
    by (rule bind_expires_delta_absent)
qed


theorem create_new_token_refresh_check_witness:
  "(\<forall>c k a m. lib_encode J0 c k a \<noteq> Inl (TokenError m))
   \<and> nonempty_values store_refresh7
   \<and> create_new_token J0 cfg0 100000000 ''7'' ''tokR'' [(''role_ids'', roles12)] store_refresh7
       = (Inr (''tokN'', 3700000000),
          store_refresh7(''fba_token:7:tokN'' \<mapsto> (''tokN'', 3600)))
   \<and> colon_free (TOKEN_REDIS_PREFIX cfg0) \<and> colon_free (TOKEN_REFRESH_REDIS_PREFIX cfg0)
   \<and> TOKEN_REDIS_PREFIX cfg0 \<noteq> TOKEN_REFRESH_REDIS_PREFIX cfg0
   \<and> (store_refresh7(''fba_token:7:tokN'' \<mapsto> (''tokN'', 3600)))
        (TOKEN_REFRESH_REDIS_PREFIX cfg0 @ '':'' @ ''7'' @ '':'' @ ''tokR'')
       = store_refresh7 (TOKEN_REFRESH_REDIS_PREFIX cfg0 @ '':'' @ ''7'' @ '':'' @ ''tokR'')
   \<and> store_refresh7 (TOKEN_REFRESH_REDIS_PREFIX cfg0 @ '':'' @ ''7'' @ '':'' @ ''nope'') = None
   \<and> (\<exists>m. fst (create_new_token J0 cfg0 100000000 ''7'' ''nope'' [(''role_ids'', roles12)]
                 store_refresh7) = Inl (TokenError m))"
proof -
  have run: "create_new_token J0 cfg0 100000000 ''7'' ''tokR'' [(''role_ids'', roles12)]
               store_refresh7
       = (Inr (''tokN'', 3700000000),
          store_refresh7(''fba_token:7:tokN'' \<mapsto> (''tokN'', 3600)))"
    by (simp add: create_new_token_def bind_expires_delta_def create_access_token_def
        redis_setex_def redis_get_def dict_merge_def expiry_defs Let_def run_defs
        AList.delete_eq store_refresh7_def)
  have ns: "colon_free (TOKEN_REDIS_PREFIX cfg0)" "colon_free (TOKEN_REFRESH_REDIS_PREFIX cfg0)"
      "TOKEN_REDIS_PREFIX cfg0 \<noteq> TOKEN_REFRESH_REDIS_PREFIX cfg0"
    by (simp_all add: cfg0_def colon_free_def)
  have absent: "store_refresh7 (TOKEN_REFRESH_REDIS_PREFIX cfg0 @ '':'' @ ''7'' @ '':'' @ ''nope'')
      = None"
    by (simp add: store_refresh7_def cfg0_def)
  have ne: "nonempty_values store_refresh7"
    by (simp add: nonempty_values_def store_refresh7_def)
  note w1 = create_new_token_refresh_check[OF J0_encode_foreign ne, of cfg0 100000000 "''7''"
      "''tokR''" "[(''role_ids'', roles12)]"]
  note w2 = create_new_token_refresh_check[OF J0_encode_foreign ne, of cfg0 100000000 "''7''"
      "''nope''" "[(''role_ids'', roles12)]"]
  from w1 run ns
  have frame: "(store_refresh7(''fba_token:7:tokN'' \<mapsto> (''tokN'', 3600)))
        (TOKEN_REFRESH_REDIS_PREFIX cfg0 @ '':'' @ ''7'' @ '':'' @ ''tokR'')
       = store_refresh7 (TOKEN_REFRESH_REDIS_PREFIX cfg0 @ '':'' @ ''7'' @ '':'' @ ''tokR'')"
    by blast
  from w2 absent
  have refused: "\<exists>m. fst (create_new_token J0 cfg0 100000000 ''7'' ''nope''
      [(''role_ids'', roles12)] store_refresh7) = Inl (TokenError m)"
    by blast
  from J0_encode_foreign ne run ns frame absent refused show ?thesis by blast
qed

section \<open>Entries hold their own token\<close>

lemma store_inv_empty: "store_inv Map.empty"
  by (simp add: store_inv_def)

lemma store_inv_delete_prefix: "store_inv s \<Longrightarrow> store_inv (redis_delete_prefix p s)"
  by (auto simp: store_inv_def redis_delete_prefix_def split: if_splits)

lemma store_inv_put:
  assumes "store_inv s" "colon_free p" "colon_free u"
  shows "store_inv (s(p @ '':'' @ u @ '':'' @ v \<mapsto> (v, ttl)))"
  unfolding store_inv_def
proof (intro allI impI)
  fix k w t
  assume h: "(s(p @ '':'' @ u @ '':'' @ v \<mapsto> (v, ttl))) k = Some (w, t)"
  show "\<exists>p' u'. colon_free p' \<and> colon_free u' \<and> k = p' @ '':'' @ u' @ '':'' @ w"
  proof (cases "k = p @ '':'' @ u @ '':'' @ v")
    case True
    with h have "w = v" by simp
    with True assms(2,3) show ?thesis by blast
  next
    case False
    with h have "s k = Some (w, t)" by simp
    with assms(1) show ?thesis unfolding store_inv_def by blast
  qed
qed

lemma store_inv_get:
  assumes "store_inv s" "colon_free p" "colon_free u"
      and "redis_get (p @ '':'' @ u @ '':'' @ t) s = Some v"
  shows "v = t"
proof -
  from assms(4) obtain ttl where "s (p @ '':'' @ u @ '':'' @ t) = Some (v, ttl)"
    by (auto simp: redis_get_def)
  with assms(1) obtain p' u' where c: "colon_free p'" "colon_free u'"
    and k: "p @ '':'' @ u @ '':'' @ t = p' @ '':'' @ u' @ '':'' @ v"
    unfolding store_inv_def by blast
  from k have "p @ CHR '':'' # (u @ '':'' @ t) = p' @ CHR '':'' # (u' @ '':'' @ v)" by simp
  from split_at_colon[OF assms(2) c(1) this] have "u @ CHR '':'' # t = u' @ CHR '':'' # v"
    by simp
  from split_at_colon[OF assms(3) c(2) this] show ?thesis by simp
qed

lemma store_inv_create_access_token:
  assumes "store_inv s" "colon_free (TOKEN_REDIS_PREFIX cfg)" "colon_free sub"
  shows "store_inv (snd (create_access_token J cfg now sub d kwargs s))"
proof -
  obtain r s' where run: "create_access_token J cfg now sub d kwargs s = (r, s')"
    by (cases "create_access_token J cfg now sub d kwargs s")
  have "store_inv s'"
  proof (cases r)
    case (Inl x)
    with run create_access_token_store_failed[of J cfg now sub d kwargs s x s'] assms(1)
    show ?thesis by (auto intro: store_inv_delete_prefix)
  next
    case (Inr q)
    obtain tok e where "q = (tok, e)" by (cases q)
    with Inr run create_access_token_store[of J cfg now sub d kwargs s tok e s']
    obtain ttl where s': "s' =
         (if dict_get kwargs ''multi_login'' = PBool False
          then redis_delete_prefix (TOKEN_REDIS_PREFIX cfg @ '':'' @ sub @ '':'') s
          else s)
         (TOKEN_REDIS_PREFIX cfg @ '':'' @ sub @ '':'' @ tok \<mapsto> (tok, ttl))"
      by auto
    have "store_inv (if dict_get kwargs ''multi_login'' = PBool False
          then redis_delete_prefix (TOKEN_REDIS_PREFIX cfg @ '':'' @ sub @ '':'') s
          else s)"
      using assms(1) by (simp add: store_inv_delete_prefix)
    from store_inv_put[OF this assms(2) assms(3)] show ?thesis unfolding s' .
  qed
  with run show ?thesis by simp
qed

lemma store_inv_create_refresh_token:
  assumes "store_inv s" "colon_free (TOKEN_REFRESH_REDIS_PREFIX cfg)" "colon_free sub"
  shows "store_inv (snd (create_refresh_token J cfg now sub t kwargs s))"
proof -
  obtain r s' where run: "create_refresh_token J cfg now sub t kwargs s = (r, s')"
    by (cases "create_refresh_token J cfg now sub t kwargs s")
  have "store_inv s'"
  proof (cases r)
    case (Inl x)
    with run create_refresh_token_store_failed[of J cfg now sub t kwargs s x s'] assms(1)
    show ?thesis by (auto intro: store_inv_delete_prefix)
  next
    case (Inr q)
    obtain tok e where "q = (tok, e)" by (cases q)
    with Inr run create_refresh_token_store[of J cfg now sub t kwargs s tok e s']
    obtain ttl where s': "s' =
         (if dict_get kwargs ''multi_login'' = PBool False
          then redis_delete_prefix (TOKEN_REFRESH_REDIS_PREFIX cfg @ '':'' @ sub @ '':'') s
          else s)
         (TOKEN_REFRESH_REDIS_PREFIX cfg @ '':'' @ sub @ '':'' @ tok \<mapsto> (tok, ttl))"
      by auto
    have "store_inv (if dict_get kwargs ''multi_login'' = PBool False
          then redis_delete_prefix (TOKEN_REFRESH_REDIS_PREFIX cfg @ '':'' @ sub @ '':'') s
          else s)"
      using assms(1) by (simp add: store_inv_delete_prefix)
    from store_inv_put[OF this assms(2) assms(3)] show ?thesis unfolding s' .
  qed
  with run show ?thesis by simp
qed

lemma store_inv_create_new_token:
  assumes "store_inv s" "colon_free (TOKEN_REDIS_PREFIX cfg)" "colon_free sub"
  shows "store_inv (snd (create_new_token J cfg now sub rt kwargs s))"
  using assms(1) store_inv_create_access_token[OF assms]
  by (auto simp: create_new_token_unfold split: sum.splits)

text \<open>
  Claim C9, as amended. An entry written by \<open>create_access_token\<close> or
  \<open>create_refresh_token\<close> holds the token under the key \<^verbatim>\<open>prefix:subject:token\<close>. When the
  two prefixes and the subject hold no colon, the three functions keep the invariant
  that every entry of the index holds the last part of its key; under it a get on the
  key of a subject and a token that finds an entry returns that token, so the test
  \<^verbatim>\<open>redis_refresh_token != refresh_token\<close> of \<open>create_new_token\<close> is then false.
\<close>

theorem written_entries_hold_their_token:
  assumes "colon_free (TOKEN_REDIS_PREFIX cfg)"
      and "colon_free (TOKEN_REFRESH_REDIS_PREFIX cfg)"
      and "colon_free sub"
      and "store_inv s"
  shows "store_inv (snd (create_access_token J cfg now sub d kwargs s))
         \<and> store_inv (snd (create_refresh_token J cfg now sub t kwargs s))
         \<and> store_inv (snd (create_new_token J cfg now sub rt kwargs s))
         \<and> (\<forall>tok e s'. create_access_token J cfg now sub d kwargs s = (Inr (tok, e), s')
              \<longrightarrow> redis_get (TOKEN_REDIS_PREFIX cfg @ '':'' @ sub @ '':'' @ tok) s' = Some tok)
         \<and> (\<forall>tok e s'. create_refresh_token J cfg now sub t kwargs s = (Inr (tok, e), s')
              \<longrightarrow> redis_get (TOKEN_REFRESH_REDIS_PREFIX cfg @ '':'' @ sub @ '':'' @ tok) s'
                    = Some tok)
         \<and> (\<forall>v. redis_get (TOKEN_REFRESH_REDIS_PREFIX cfg @ '':'' @ sub @ '':'' @ rt) s = Some v
              \<longrightarrow> v = rt)"
proof (intro conjI allI impI)
  show "store_inv (snd (create_access_token J cfg now sub d kwargs s))"
    by (rule store_inv_create_access_token[OF assms(4) assms(1) assms(3)])
  show "store_inv (snd (create_refresh_token J cfg now sub t kwargs s))"
    by (rule store_inv_create_refresh_token[OF assms(4) assms(2) assms(3)])
  show "store_inv (snd (create_new_token J cfg now sub rt kwargs s))"
    by (rule store_inv_create_new_token[OF assms(4) assms(1) assms(3)])
next
  fix tok e s'
  assume "create_access_token J cfg now sub d kwargs s = (Inr (tok, e), s')"
  from create_access_token_store[OF this]
  show "redis_get (TOKEN_REDIS_PREFIX cfg @ '':'' @ sub @ '':'' @ tok) s' = Some tok"
    by (auto simp: redis_get_def)
next
  fix tok e s'
  assume "create_refresh_token J cfg now sub t kwargs s = (Inr (tok, e), s')"
  from create_refresh_token_store[OF this]
  show "redis_get (TOKEN_REFRESH_REDIS_PREFIX cfg @ '':'' @ sub @ '':'' @ tok) s' = Some tok"
    by (auto simp: redis_get_def)
next
  fix v
  assume "redis_get (TOKEN_REFRESH_REDIS_PREFIX cfg @ '':'' @ sub @ '':'' @ rt) s = Some v"
  from store_inv_get[OF assms(4) assms(2) assms(3) this] show "v = rt" .
qed

theorem written_entries_hold_their_token_witness:
  "colon_free (TOKEN_REDIS_PREFIX cfg0) \<and> colon_free (TOKEN_REFRESH_REDIS_PREFIX cfg0)
   \<and> colon_free ''7'' \<and> store_inv Map.empty
   \<and> create_refresh_token J0 cfg0 50000000 ''7'' (Some 100000000) [] Map.empty
       = (Inr (''tokR'', 604900000000), store_refresh7)
   \<and> store_inv store_refresh7
   \<and> redis_get (TOKEN_REFRESH_REDIS_PREFIX cfg0 @ '':'' @ ''7'' @ '':'' @ ''tokR'') store_refresh7
       = Some ''tokR''"
proof -
  have c: "colon_free (TOKEN_REDIS_PREFIX cfg0)" "colon_free (TOKEN_REFRESH_REDIS_PREFIX cfg0)"
      "colon_free ''7''"
    by (simp_all add: cfg0_def colon_free_def)
  have run: "create_refresh_token J0 cfg0 50000000 ''7'' (Some 100000000) [] Map.empty
       = (Inr (''tokR'', 604900000000), store_refresh7)"
    by (simp add: issue_defs run_defs store_refresh7_def)
  note w = written_entries_hold_their_token[OF c store_inv_empty,
      where J = J0 and now = 50000000 and t = "Some 100000000" and kwargs = "[]"]
  from w run have inv: "store_inv store_refresh7" by simp
  from w run have got: "redis_get
      (TOKEN_REFRESH_REDIS_PREFIX cfg0 @ '':'' @ ''7'' @ '':'' @ ''tokR'') store_refresh7
       = Some ''tokR''"
    by blast
  from c store_inv_empty run inv got show ?thesis by blast
qed

text \<open>
  The claim as it stands fails when a subject holds a colon: the entry written for the
  subject \<^verbatim>\<open>7:a\<close> and its token \<^verbatim>\<open>tokS\<close> is the entry a get for the subject \<^verbatim>\<open>7\<close> and
  the token \<^verbatim>\<open>a:tokS\<close> finds, its value is not that token, and \<open>create_new_token\<close>
  raises through the mismatch test.
\<close>

theorem key_alias_counterexample:
  "create_refresh_token J0 cfg0 50000000 ''7:a'' (Some 100000000) [] Map.empty
     = (Inr (''tokS'', 604900000000), store_alias)
   \<and> redis_get (TOKEN_REFRESH_REDIS_PREFIX cfg0 @ '':'' @ ''7'' @ '':'' @ ''a:tokS'') store_alias
     = Some ''tokS''
   \<and> ''tokS'' \<noteq> ''a:tokS''
   \<and> create_new_token J0 cfg0 100000000 ''7'' ''a:tokS'' [(''role_ids'', roles12)] store_alias
     = (Inl (TokenError RefreshTokenExpiredMsg), store_alias)"
proof (intro conjI)
  show "create_refresh_token J0 cfg0 50000000 ''7:a'' (Some 100000000) [] Map.empty
     = (Inr (''tokS'', 604900000000), store_alias)"
    by (simp add: issue_defs run_defs store_alias_def)
  show "redis_get (TOKEN_REFRESH_REDIS_PREFIX cfg0 @ '':'' @ ''7'' @ '':'' @ ''a:tokS'') store_alias
     = Some ''tokS''"
    by (simp add: redis_get_def store_alias_def cfg0_def)
  show "''tokS'' \<noteq> ''a:tokS''" by simp
  show "create_new_token J0 cfg0 100000000 ''7'' ''a:tokS'' [(''role_ids'', roles12)] store_alias
     = (Inl (TokenError RefreshTokenExpiredMsg), store_alias)"
    by (simp add: create_new_token_def redis_get_def store_alias_def cfg0_def Let_def)
qed

end
